theory Spec2Isabelle
  imports Complex_Main
begin

section \<open>The remainder kernels of \<open>kernels/portable/cpu/op_fmod.cpp\<close>\<close>

text \<open>
  The file defines two operator entry points, \<open>fmod_Tensor_out\<close> (tensor, tensor) and
  \<open>fmod_Scalar_out\<close> (tensor, scalar). Both resize the output, resolve a common
  computation type, check that it can be cast to the output type, dispatch on the four
  element types and run an elementwise loop whose body is \<open>std::fmod\<close> between two
  casts. Every \<open>ET_CHECK\<close> and every failed \<open>ET_SWITCH\<close> is fatal; the model returns
  it as a value, together with the state of \<open>out\<close> at that moment.

  The helpers the file calls (\<open>promoteTypes\<close>, \<open>canCast\<close>, \<open>resize_tensor\<close>,
  the broadcast utilities, the \<open>ET_SWITCH\<close> macros and the two appliers) live in headers
  that are not part of the sources at hand. The cast oracle, the allocator and the
  floating-point unit are parameters of the model (record \<open>platform\<close>); the other
  helpers are modelled from the specification and marked as such.
\<close>

subsection \<open>Element types\<close>

text \<open>
  Modelled from the spec: the \<open>ScalarType\<close> enumeration is not in the sources. The spec
  describes the tag set as signed and unsigned integers of several widths, floating-point
  types of several widths and boolean. \<open>Byte\<close> is the unsigned 8-bit integer, \<open>CharT\<close>,
  \<open>Short\<close>, \<open>IntT\<close>, \<open>Long\<close> the signed integers of 8, 16, 32 and 64 bits,
  \<open>Half\<close>, \<open>Float\<close>, \<open>Double\<close> the floating types of 16, 32 and 64 bits.
  (\<open>CharT\<close> and \<open>IntT\<close> stand for \<open>Char\<close> and \<open>Int\<close>, which are taken in HOL.)
\<close>

datatype ScalarType = Byte | CharT | Short | IntT | Long | Half | Float | Double | Bool

text \<open>Modelled from the spec: \<open>isIntegralType(t, includeBool)\<close>, called at lines 53 and 101.\<close>

definition isIntegralType :: "ScalarType \<Rightarrow> bool \<Rightarrow> bool" where
  "isIntegralType t includeBool =
     (t = Byte \<or> t = CharT \<or> t = Short \<or> t = IntT \<or> t = Long \<or> (includeBool \<and> t = Bool))"

definition isFloatingType :: "ScalarType \<Rightarrow> bool" where
  "isFloatingType t = (t = Half \<or> t = Float \<or> t = Double)"

text \<open>The size of an element in bytes.\<close>

fun elementSize :: "ScalarType \<Rightarrow> nat" where
  "elementSize Byte = 1"
| "elementSize CharT = 1"
| "elementSize Short = 2"
| "elementSize IntT = 4"
| "elementSize Long = 8"
| "elementSize Half = 2"
| "elementSize Float = 4"
| "elementSize Double = 8"
| "elementSize Bool = 1"

text \<open>
  Modelled from the spec: \<open>promoteTypes\<close> (called at line 34) is not in the sources. The
  spec, section 4.2: equal types promote to themselves; booleans promote below all integer
  types; same-width signed/unsigned integer mixes promote to a wider signed type; any
  integer mixed with any floating type promotes to that floating type; mixing two floating
  types promotes to the wider one. Two integers of different widths promote to the wider.
\<close>

definition promoteTypes :: "ScalarType \<Rightarrow> ScalarType \<Rightarrow> ScalarType" where
  "promoteTypes a b =
     (if a = b then a
      else if a = Bool then b
      else if b = Bool then a
      else if isFloatingType a \<and> isFloatingType b then
        (if elementSize a < elementSize b then b else a)
      else if isFloatingType a then a
      else if isFloatingType b then b
      else if (a = Byte \<and> b = CharT) \<or> (a = CharT \<and> b = Byte) then Short
      else if elementSize a < elementSize b then b else a)"

text \<open>
  The type sets of the dispatch macros. \<open>ET_SWITCH_REAL_TYPES\<close> covers the real numeric
  types, \<open>ET_SWITCH_REAL_TYPES_AND(Bool, ...)\<close> adds boolean, and
  \<open>ET_SWITCH_SCALAR_OBJ_TYPES\<close> covers the three representations a scalar can have.
  Modelled from the spec, section 4.4: all real numeric types plus boolean for the input
  slots, all real numeric types without boolean for the compute and output slots; a tag
  with no specialisation fails with \<open>UnsupportedType\<close>.
\<close>

definition REAL_TYPES :: "ScalarType \<Rightarrow> bool" where
  "REAL_TYPES t =
     (t = Byte \<or> t = CharT \<or> t = Short \<or> t = IntT \<or> t = Long \<or> t = Float \<or> t = Double)"

definition REAL_TYPES_AND_Bool :: "ScalarType \<Rightarrow> bool" where
  "REAL_TYPES_AND_Bool t = (REAL_TYPES t \<or> t = Bool)"

definition SCALAR_OBJ_TYPES :: "ScalarType \<Rightarrow> bool" where
  "SCALAR_OBJ_TYPES t = (t = Bool \<or> t = Long \<or> t = Double)"

subsection \<open>Values, tensors, scalars and failures\<close>

text \<open>
  A native value is a boolean, an integer or a floating-point number. Floating-point
  values are kept abstract (the type variable \<open>'f\<close>): their arithmetic belongs to the
  platform.
\<close>

datatype 'f elem = BoolV bool | IntV int | FloatV 'f

text \<open>
  Modelled from the spec, section 3: a tensor is a shape, an element-type tag and a
  contiguous buffer; a scalar is a single boolean, integral or floating value, tagged
  \<open>Bool\<close>, \<open>Long\<close> or \<open>Double\<close>.
\<close>

record 'f Tensor =
  sizes :: "nat list"
  scalar_type :: ScalarType
  data :: "'f elem list"

datatype 'f Scalar = BoolS bool | IntS int | FloatS 'f

definition numel :: "nat list \<Rightarrow> nat" where
  "numel shape = prod_list shape"

text \<open>The invariant of the spec's data model: the buffer holds one element per position.\<close>

definition wf_tensor :: "'f Tensor \<Rightarrow> bool" where
  "wf_tensor t = (length (data t) = numel (sizes t))"

text \<open>
  The fatal failures: the four kinds of the spec's section 7, and \<open>ResizeFailed\<close> for
  the check at line 84 (the resize primitive did not return \<open>Error::Ok\<close>).
\<close>

datatype error = ShapeMismatch | UnsupportedType | CastNotAllowed | DomainViolation | ResizeFailed

text \<open>
  What the surrounding platform supplies. \<open>canCast\<close> is the cast-compatibility oracle;
  \<open>realloc old n\<close> is the allocator behind the resize primitive, returning a buffer for
  \<open>n\<close> elements or failing; the remaining fields are the floating-point unit:
  \<open>fp_fmod t\<close> is \<open>std::fmod\<close> at the floating type \<open>t\<close>, \<open>fp_of_int t\<close> converts an
  integer to \<open>t\<close>, \<open>fp_convert s t\<close> converts between two floating types,
  \<open>fp_to_int s t\<close> converts a floating value of type \<open>s\<close> to the integral type \<open>t\<close>,
  and \<open>fp_is_zero\<close> is the comparison with zero.
\<close>

record 'f platform =
  canCast :: "ScalarType \<Rightarrow> ScalarType \<Rightarrow> bool"
  realloc :: "'f elem list \<Rightarrow> nat \<Rightarrow> 'f elem list option"
  fp_fmod :: "ScalarType \<Rightarrow> 'f \<Rightarrow> 'f \<Rightarrow> 'f"
  fp_of_int :: "ScalarType \<Rightarrow> int \<Rightarrow> 'f"
  fp_convert :: "ScalarType \<Rightarrow> ScalarType \<Rightarrow> 'f \<Rightarrow> 'f"
  fp_to_int :: "ScalarType \<Rightarrow> ScalarType \<Rightarrow> 'f \<Rightarrow> int"
  fp_is_zero :: "'f \<Rightarrow> bool"

definition realloc_ok :: "'f platform \<Rightarrow> bool" where
  "realloc_ok P = (\<forall>old n buf. realloc P old n = Some buf \<longrightarrow> length buf = n)"

subsection \<open>Native arithmetic and casts\<close>

text \<open>
  \<open>static_cast\<close> to an integral type keeps an integer value modulo the width of the
  target: \<open>Byte\<close> is unsigned, the other integral types are two's complement.
\<close>

definition wrap_int :: "ScalarType \<Rightarrow> int \<Rightarrow> int" where
  "wrap_int t n =
     (if t = Byte then n mod 256
      else (n + 2 ^ (8 * elementSize t - 1)) mod 2 ^ (8 * elementSize t)
             - 2 ^ (8 * elementSize t - 1))"

text \<open>
  For integral arguments \<open>std::fmod\<close> (lines 61 and 112) converts both to \<open>double\<close>,
  takes the remainder there and the result is converted back to \<open>CTYPE_IN\<close>. An integer
  below \<open>2^53\<close> in magnitude is a double; a larger one is rounded to 53 significant bits,
  ties to even. The remainder of two doubles is exact and has the sign of the dividend, so
  on integers it is the truncating remainder of the two converted values.
\<close>

function bit_length :: "int \<Rightarrow> nat" where
  "bit_length n = (if n \<le> 0 then 0 else Suc (bit_length (n div 2)))"
  by pat_completeness auto
termination
  by (relation "measure nat") auto

declare bit_length.simps [simp del]

definition int_to_double :: "int \<Rightarrow> int" where
  "int_to_double n =
     (let m = \<bar>n\<bar> in
      if m < 2 ^ 53 then n
      else
        let k = bit_length m - 53;
            q = m div 2 ^ k;
            r = m mod 2 ^ k;
            h = 2 ^ (k - 1);
            q' = (if h < r \<or> (r = h \<and> odd q) then q + 1 else q)
        in sgn n * (q' * 2 ^ k))"

definition fmod_int :: "int \<Rightarrow> int \<Rightarrow> int" where
  "fmod_int m n = (let x = int_to_double m; y = int_to_double n in sgn x * (\<bar>x\<bar> mod \<bar>y\<bar>))"

text \<open>The test \<open>val_b != 0\<close> of lines 55 and 102, negated.\<close>

definition elem_is_zero :: "'f platform \<Rightarrow> 'f elem \<Rightarrow> bool" where
  "elem_is_zero P v =
     (case v of BoolV b \<Rightarrow> \<not> b | IntV n \<Rightarrow> n = 0 | FloatV x \<Rightarrow> fp_is_zero P x)"

text \<open>
  \<open>static_cast<dst>(v)\<close> for a value \<open>v\<close> of the native type of \<open>src\<close>. A cast from a
  floating type to itself is the identity; the other floating-point casts are the
  platform's.
\<close>

definition static_cast :: "'f platform \<Rightarrow> ScalarType \<Rightarrow> ScalarType \<Rightarrow> 'f elem \<Rightarrow> 'f elem" where
  "static_cast P src dst v =
     (if dst = Bool then BoolV (\<not> elem_is_zero P v)
      else if isFloatingType dst then
        FloatV (case v of
                  BoolV b \<Rightarrow> fp_of_int P dst (if b then 1 else 0)
                | IntV n \<Rightarrow> fp_of_int P dst n
                | FloatV x \<Rightarrow> (if src = dst then x else fp_convert P src dst x))
      else
        IntV (case v of
                BoolV b \<Rightarrow> (if b then 1 else 0)
              | IntV n \<Rightarrow> wrap_int dst n
              | FloatV x \<Rightarrow> fp_to_int P src dst x))"

text \<open>
  \<open>std::fmod(a_casted, b_casted)\<close>, stored in a variable of the compute type \<open>t\<close>. Both
  arguments were cast to \<open>t\<close>, so they are two integers or two floating values; the
  remaining cases do not arise.
\<close>

definition std_fmod :: "'f platform \<Rightarrow> ScalarType \<Rightarrow> 'f elem \<Rightarrow> 'f elem \<Rightarrow> 'f elem" where
  "std_fmod P t x y =
     (case x of
        IntV m \<Rightarrow> (case y of IntV n \<Rightarrow> IntV (fmod_int m n) | _ \<Rightarrow> x)
      | FloatV u \<Rightarrow> (case y of FloatV v \<Rightarrow> FloatV (fp_fmod P t u v) | _ \<Rightarrow> x)
      | BoolV b \<Rightarrow> x)"

subsection \<open>Broadcasting and resizing\<close>

text \<open>
  Modelled from the spec: \<open>broadcastShape\<close>, section 4.1. Both shapes are right-aligned;
  a pair of extents is compatible when they are equal or one of them is 1, and the output
  extent is their maximum; missing leading dimensions count as 1. \<open>broadcast_rev\<close> works
  on the reversed shapes, trailing dimension first.
\<close>

fun broadcast_rev :: "nat list \<Rightarrow> nat list \<Rightarrow> nat list option" where
  "broadcast_rev [] ys = Some ys"
| "broadcast_rev (x # xs) [] = Some (x # xs)"
| "broadcast_rev (x # xs) (y # ys) =
     (if x = y \<or> x = 1 \<or> y = 1
      then map_option (\<lambda>zs. max x y # zs) (broadcast_rev xs ys)
      else None)"

definition broadcastShape :: "nat list \<Rightarrow> nat list \<Rightarrow> nat list option" where
  "broadcastShape shapeA shapeB = map_option rev (broadcast_rev (rev shapeA) (rev shapeB))"

text \<open>
  Modelled from the spec: the resize primitive \<open>resize_tensor\<close> (called at line 84),
  sections 3, 4.1 and 6. When the shape differs from the current one the buffer is
  reallocated for the new element count and the type tag is kept; the primitive fails
  when the allocator does.
\<close>

definition resize_tensor :: "'f platform \<Rightarrow> 'f Tensor \<Rightarrow> nat list \<Rightarrow> 'f Tensor option" where
  "resize_tensor P t new_sizes =
     (if sizes t = new_sizes then Some t
      else case realloc P (data t) (numel new_sizes) of
             None \<Rightarrow> None
           | Some buf \<Rightarrow> Some (t\<lparr>sizes := new_sizes, data := buf\<rparr>))"

text \<open>
  Modelled from the spec: \<open>resize_to_broadcast_target_size\<close> (called at line 30),
  section 4.1. It computes the broadcast shape, failing with \<open>ShapeMismatch\<close> when the
  shapes are incompatible, and resizes \<open>out\<close> to it. Neither input is touched.
\<close>

definition resize_to_broadcast_target_size ::
    "'f platform \<Rightarrow> 'f Tensor \<Rightarrow> 'f Tensor \<Rightarrow> 'f Tensor \<Rightarrow> error + 'f Tensor" where
  "resize_to_broadcast_target_size P a b out =
     (case broadcastShape (sizes a) (sizes b) of
        None \<Rightarrow> Inl ShapeMismatch
      | Some target \<Rightarrow>
          (case resize_tensor P out target of
             None \<Rightarrow> Inl ResizeFailed
           | Some out' \<Rightarrow> Inr out'))"

subsection \<open>The elementwise appliers\<close>

text \<open>
  Modelled from the spec, section 4.5. The binary applier visits the positions of
  \<open>out\<close> in row-major order. The coordinate of a position is taken in \<open>out\<close>'s shape; the
  coordinate in an operand is the same with every dimension of extent 1 set to 0, the
  operand's shape being right-aligned with \<open>out\<close>'s.
\<close>

fun delinearize_index :: "nat \<Rightarrow> nat list \<Rightarrow> nat list" where
  "delinearize_index i [] = []"
| "delinearize_index i (d # ds) = (i div prod_list ds) mod d # delinearize_index i ds"

fun linearize_access_indexes :: "nat list \<Rightarrow> nat list \<Rightarrow> nat" where
  "linearize_access_indexes (c # cs) (d # ds) = c * prod_list ds + linearize_access_indexes cs ds"
| "linearize_access_indexes cs ds = 0"

definition operand_index :: "nat list \<Rightarrow> nat list \<Rightarrow> nat \<Rightarrow> nat" where
  "operand_index out_sizes op_sizes i =
     linearize_access_indexes
       (map2 (\<lambda>c d. if d = 1 then 0 else c)
          (drop (length out_sizes - length op_sizes) (delinearize_index i out_sizes))
          op_sizes)
       op_sizes"

text \<open>The element of operand \<open>t\<close> that position \<open>i\<close> of an output of shape \<open>out_sizes\<close> reads.\<close>

definition operand_elem :: "'f Tensor \<Rightarrow> nat list \<Rightarrow> nat \<Rightarrow> 'f elem" where
  "operand_elem t out_sizes i = data t ! operand_index out_sizes (sizes t) i"

text \<open>
  The loop of \<open>apply_binary_elementwise_fn\<close> over the positions \<open>is\<close>: read one element
  of each operand, call \<open>fn\<close>, store the result. A failure of \<open>fn\<close> ends the call at
  once, with \<open>out\<close> as the earlier iterations left it.
\<close>

fun binary_loop ::
    "('f elem \<Rightarrow> 'f elem \<Rightarrow> error + 'f elem) \<Rightarrow> 'f Tensor \<Rightarrow> 'f Tensor \<Rightarrow> nat list \<Rightarrow>
     'f Tensor \<Rightarrow> (error \<times> 'f Tensor) + 'f Tensor" where
  "binary_loop fn a b [] out = Inr out"
| "binary_loop fn a b (i # is) out =
     (case fn (operand_elem a (sizes out) i) (operand_elem b (sizes out) i) of
        Inl e \<Rightarrow> Inl (e, out)
      | Inr v \<Rightarrow> binary_loop fn a b is (out\<lparr>data := (data out)[i := v]\<rparr>))"

definition apply_binary_elementwise_fn ::
    "('f elem \<Rightarrow> 'f elem \<Rightarrow> error + 'f elem) \<Rightarrow> 'f Tensor \<Rightarrow> 'f Tensor \<Rightarrow> 'f Tensor \<Rightarrow>
     (error \<times> 'f Tensor) + 'f Tensor" where
  "apply_binary_elementwise_fn fn a b out = binary_loop fn a b [0..<numel (sizes out)] out"

text \<open>
  The unary applier: \<open>fn\<close> on each of \<open>count\<close> elements of the input buffer, in index
  order, stored at the same index of the output buffer.
\<close>

fun unary_loop :: "('f elem \<Rightarrow> 'f elem) \<Rightarrow> 'f elem list \<Rightarrow> nat list \<Rightarrow> 'f elem list \<Rightarrow> 'f elem list" where
  "unary_loop fn data_in [] data_out = data_out"
| "unary_loop fn data_in (i # is) data_out =
     unary_loop fn data_in is (data_out[i := fn (data_in ! i)])"

definition apply_unary_map_fn ::
    "('f elem \<Rightarrow> 'f elem) \<Rightarrow> 'f elem list \<Rightarrow> 'f elem list \<Rightarrow> nat \<Rightarrow> 'f elem list" where
  "apply_unary_map_fn fn data_in data_out count = unary_loop fn data_in [0..<count] data_out"

subsection \<open>\<open>fmod_Tensor_out\<close> (lines 22 to 74)\<close>

text \<open>
  The remainder of two native values: both cast to the compute type, \<open>std::fmod\<close>, the
  result cast to the output type (lines 57 to 63 and 108 to 114).
\<close>

definition fmod_value ::
    "'f platform \<Rightarrow> ScalarType \<Rightarrow> ScalarType \<Rightarrow> ScalarType \<Rightarrow> ScalarType \<Rightarrow>
     'f elem \<Rightarrow> 'f elem \<Rightarrow> 'f elem" where
  "fmod_value P common_type a_type b_type out_type val_a val_b =
     (let a_casted = static_cast P a_type common_type val_a;
          b_casted = static_cast P b_type common_type val_b;
          value = std_fmod P common_type a_casted b_casted
      in static_cast P common_type out_type value)"

text \<open>The lambda of lines 51 to 64: the zero check for an integral compute type, then the remainder.\<close>

definition fmod_elementwise_fn ::
    "'f platform \<Rightarrow> ScalarType \<Rightarrow> ScalarType \<Rightarrow> ScalarType \<Rightarrow> ScalarType \<Rightarrow>
     'f elem \<Rightarrow> 'f elem \<Rightarrow> error + 'f elem" where
  "fmod_elementwise_fn P common_type a_type b_type out_type val_a val_b =
     (if isIntegralType common_type True \<and> elem_is_zero P val_b then Inl DomainViolation
      else Inr (fmod_value P common_type a_type b_type out_type val_a val_b))"

text \<open>
  The entry point. The result is \<open>Inr out'\<close> when the call returns, and
  \<open>Inl (e, out')\<close> when it aborts with the failure \<open>e\<close>, where \<open>out'\<close> is the output
  tensor at that moment. The context argument is unused (line 27).
\<close>

definition fmod_Tensor_out ::
    "'f platform \<Rightarrow> 'f Tensor \<Rightarrow> 'f Tensor \<Rightarrow> 'f Tensor \<Rightarrow> (error \<times> 'f Tensor) + 'f Tensor" where
  "fmod_Tensor_out P a b out =
     (case resize_to_broadcast_target_size P a b out of
        Inl e \<Rightarrow> Inl (e, out)
      | Inr out1 \<Rightarrow>
          let a_type = scalar_type a;
              b_type = scalar_type b;
              common_type = promoteTypes a_type b_type;
              out_type = scalar_type out1
          in
            if \<not> canCast P common_type out_type then Inl (CastNotAllowed, out1)
            else if \<not> REAL_TYPES_AND_Bool a_type then Inl (UnsupportedType, out1)
            else if \<not> REAL_TYPES_AND_Bool b_type then Inl (UnsupportedType, out1)
            else if \<not> REAL_TYPES common_type then Inl (UnsupportedType, out1)
            else if \<not> REAL_TYPES out_type then Inl (UnsupportedType, out1)
            else apply_binary_elementwise_fn
                   (fmod_elementwise_fn P common_type a_type b_type out_type) a b out1)"

subsection \<open>\<open>fmod_Scalar_out\<close> (lines 76 to 125)\<close>

text \<open>
  Modelled from the spec: \<open>get_scalar_dtype\<close> and \<open>promote_type_with_scalar\<close> (lines 87
  and 88), section 4.2: the scalar's own tag, and the promotion of the tensor's type with
  that tag through the same table as \<open>promoteTypes\<close>. \<open>ET_EXTRACT_SCALAR\<close> (line 98)
  reads the scalar as a value of the native type of its tag.
\<close>

definition get_scalar_dtype :: "'f Scalar \<Rightarrow> ScalarType" where
  "get_scalar_dtype s = (case s of BoolS b \<Rightarrow> Bool | IntS n \<Rightarrow> Long | FloatS x \<Rightarrow> Double)"

definition promote_type_with_scalar :: "ScalarType \<Rightarrow> 'f Scalar \<Rightarrow> ScalarType" where
  "promote_type_with_scalar t s = promoteTypes t (get_scalar_dtype s)"

definition extract_scalar :: "'f Scalar \<Rightarrow> 'f elem" where
  "extract_scalar s = (case s of BoolS b \<Rightarrow> BoolV b | IntS n \<Rightarrow> IntV n | FloatS x \<Rightarrow> FloatV x)"

definition fmod_Scalar_out ::
    "'f platform \<Rightarrow> 'f Tensor \<Rightarrow> 'f Scalar \<Rightarrow> 'f Tensor \<Rightarrow> (error \<times> 'f Tensor) + 'f Tensor" where
  "fmod_Scalar_out P a b out =
     (case resize_tensor P out (sizes a) of
        None \<Rightarrow> Inl (ResizeFailed, out)
      | Some out1 \<Rightarrow>
          let a_type = scalar_type a;
              b_type = get_scalar_dtype b;
              common_type = promote_type_with_scalar a_type b;
              out_type = scalar_type out1
          in
            if \<not> canCast P common_type out_type then Inl (CastNotAllowed, out1)
            else if \<not> REAL_TYPES_AND_Bool a_type then Inl (UnsupportedType, out1)
            else if \<not> SCALAR_OBJ_TYPES b_type then Inl (UnsupportedType, out1)
            else
              let val_b = extract_scalar b in
                if \<not> REAL_TYPES common_type then Inl (UnsupportedType, out1)
                else if isIntegralType common_type True \<and> elem_is_zero P val_b
                  then Inl (DomainViolation, out1)
                else if \<not> REAL_TYPES out_type then Inl (UnsupportedType, out1)
                else Inr (out1\<lparr>data :=
                       apply_unary_map_fn
                         (\<lambda>val_a. fmod_value P common_type a_type b_type out_type val_a val_b)
                         (data a) (data out1) (numel (sizes out1))\<rparr>))"

subsection \<open>The entry points on tensors in a store\<close>

text \<open>
  The entry points take \<open>a\<close> and \<open>b\<close> by const reference and \<open>out\<close> by reference
  (lines 24 to 26 and 78 to 80), so \<open>out\<close> may be the same tensor as an input. To speak
  about that, tensors live in a store, a list indexed by handle, and the entry points take
  handles. The checks and their order are those of the functions above. The loops read
  their operands from the current store at every position and write through the handle
  of \<open>out\<close>, so a write is seen by a later read of an input that is the same tensor.
\<close>

type_synonym 'f store = "'f Tensor list"

fun binary_loop_store ::
    "('f elem \<Rightarrow> 'f elem \<Rightarrow> error + 'f elem) \<Rightarrow> nat \<Rightarrow> nat \<Rightarrow> nat \<Rightarrow> nat list \<Rightarrow>
     'f store \<Rightarrow> (error \<times> 'f store) + 'f store" where
  "binary_loop_store fn ra rb ro [] st = Inr st"
| "binary_loop_store fn ra rb ro (i # is) st =
     (case fn (operand_elem (st ! ra) (sizes (st ! ro)) i)
              (operand_elem (st ! rb) (sizes (st ! ro)) i) of
        Inl e \<Rightarrow> Inl (e, st)
      | Inr v \<Rightarrow>
          binary_loop_store fn ra rb ro is
            (st[ro := (st ! ro)\<lparr>data := (data (st ! ro))[i := v]\<rparr>]))"

definition fmod_Tensor_out_store ::
    "'f platform \<Rightarrow> nat \<Rightarrow> nat \<Rightarrow> nat \<Rightarrow> 'f store \<Rightarrow> (error \<times> 'f store) + 'f store" where
  "fmod_Tensor_out_store P ra rb ro st =
     (case resize_to_broadcast_target_size P (st ! ra) (st ! rb) (st ! ro) of
        Inl e \<Rightarrow> Inl (e, st)
      | Inr out1 \<Rightarrow>
          let st1 = st[ro := out1];
              a_type = scalar_type (st1 ! ra);
              b_type = scalar_type (st1 ! rb);
              common_type = promoteTypes a_type b_type;
              out_type = scalar_type (st1 ! ro)
          in
            if \<not> canCast P common_type out_type then Inl (CastNotAllowed, st1)
            else if \<not> REAL_TYPES_AND_Bool a_type then Inl (UnsupportedType, st1)
            else if \<not> REAL_TYPES_AND_Bool b_type then Inl (UnsupportedType, st1)
            else if \<not> REAL_TYPES common_type then Inl (UnsupportedType, st1)
            else if \<not> REAL_TYPES out_type then Inl (UnsupportedType, st1)
            else binary_loop_store
                   (fmod_elementwise_fn P common_type a_type b_type out_type) ra rb ro
                   [0..<numel (sizes (st1 ! ro))] st1)"

fun unary_loop_store ::
    "('f elem \<Rightarrow> 'f elem) \<Rightarrow> nat \<Rightarrow> nat \<Rightarrow> nat list \<Rightarrow> 'f store \<Rightarrow> 'f store" where
  "unary_loop_store fn ra ro [] st = st"
| "unary_loop_store fn ra ro (i # is) st =
     unary_loop_store fn ra ro is
       (st[ro := (st ! ro)\<lparr>data := (data (st ! ro))[i := fn (data (st ! ra) ! i)]\<rparr>])"

definition fmod_Scalar_out_store ::
    "'f platform \<Rightarrow> nat \<Rightarrow> 'f Scalar \<Rightarrow> nat \<Rightarrow> 'f store \<Rightarrow> (error \<times> 'f store) + 'f store" where
  "fmod_Scalar_out_store P ra b ro st =
     (case resize_tensor P (st ! ro) (sizes (st ! ra)) of
        None \<Rightarrow> Inl (ResizeFailed, st)
      | Some out1 \<Rightarrow>
          let st1 = st[ro := out1];
              a_type = scalar_type (st1 ! ra);
              b_type = get_scalar_dtype b;
              common_type = promote_type_with_scalar a_type b;
              out_type = scalar_type (st1 ! ro)
          in
            if \<not> canCast P common_type out_type then Inl (CastNotAllowed, st1)
            else if \<not> REAL_TYPES_AND_Bool a_type then Inl (UnsupportedType, st1)
            else if \<not> SCALAR_OBJ_TYPES b_type then Inl (UnsupportedType, st1)
            else
              let val_b = extract_scalar b in
                if \<not> REAL_TYPES common_type then Inl (UnsupportedType, st1)
                else if isIntegralType common_type True \<and> elem_is_zero P val_b
                  then Inl (DomainViolation, st1)
                else if \<not> REAL_TYPES out_type then Inl (UnsupportedType, st1)
                else Inr (unary_loop_store
                       (\<lambda>val_a. fmod_value P common_type a_type b_type out_type val_a val_b)
                       ra ro [0..<numel (sizes (st1 ! ro))] st1))"

text \<open>
  The store a call leaves, whether it returned or aborted; and the result of a call on
  tensor values, put back into a store at the handle of \<open>out\<close>.
\<close>

definition final_store :: "(error \<times> 'f store) + 'f store \<Rightarrow> 'f store" where
  "final_store r = (case r of Inl (e, st) \<Rightarrow> st | Inr st \<Rightarrow> st)"

definition put_out ::
    "nat \<Rightarrow> 'f store \<Rightarrow> (error \<times> 'f Tensor) + 'f Tensor \<Rightarrow> (error \<times> 'f store) + 'f store" where
  "put_out ro st r =
     (case r of Inl (e, out') \<Rightarrow> Inl (e, st[ro := out']) | Inr out' \<Rightarrow> Inr (st[ro := out']))"


subsection \<open>Incompatible shapes\<close>

text \<open>
  Two shapes are not broadcast-compatible when some right-aligned pair of extents is
  unequal with neither extent equal to 1. The predicate is stated on its own, to be
  compared with the failure of \<open>broadcastShape\<close>.
\<close>

definition incompatible_shapes :: "nat list \<Rightarrow> nat list \<Rightarrow> bool" where
  "incompatible_shapes shapeA shapeB =
     (\<exists>i\<in>set [0..<min (length shapeA) (length shapeB)].
        rev shapeA ! i \<noteq> rev shapeB ! i \<and> rev shapeA ! i \<noteq> 1 \<and> rev shapeB ! i \<noteq> 1)"


subsection \<open>A reference platform\<close>

text \<open>
  The theorems below hold for every platform. To run them on concrete inputs, the
  parameters are instantiated with a reference platform. Its floating-point values are
  the rationals and one \<open>NaN\<close>, with exact arithmetic: it agrees with a binary
  floating-point unit wherever the operands and the result are representable, which is
  always the case for the remainder of two representable numbers. Its cast policy refuses
  a cast from a floating type to an integral type and from a non-boolean type to boolean;
  its allocator always succeeds and returns a zero-filled buffer.
\<close>

datatype ideal_float = Fin rat | NaN

definition ideal_trunc :: "rat \<Rightarrow> int" where
  "ideal_trunc q = (if 0 \<le> q then \<lfloor>q\<rfloor> else \<lceil>q\<rceil>)"

definition ideal_fmod :: "ideal_float \<Rightarrow> ideal_float \<Rightarrow> ideal_float" where
  "ideal_fmod x y =
     (case x of
        NaN \<Rightarrow> NaN
      | Fin p \<Rightarrow>
          (case y of
             NaN \<Rightarrow> NaN
           | Fin q \<Rightarrow> if q = 0 then NaN else Fin (p - q * of_int (ideal_trunc (p / q)))))"

definition cast_policy :: "ScalarType \<Rightarrow> ScalarType \<Rightarrow> bool" where
  "cast_policy src dst =
     (if isFloatingType src \<and> isIntegralType dst False then False
      else if dst = Bool then src = Bool
      else True)"

definition ideal_platform :: "ideal_float platform" where
  "ideal_platform =
     \<lparr>canCast = cast_policy,
      realloc = (\<lambda>old n. Some (replicate n (IntV 0))),
      fp_fmod = (\<lambda>t. ideal_fmod),
      fp_of_int = (\<lambda>t n. Fin (of_int n)),
      fp_convert = (\<lambda>s t x. x),
      fp_to_int = (\<lambda>s t x. case x of Fin q \<Rightarrow> ideal_trunc q | NaN \<Rightarrow> 0),
      fp_is_zero = (\<lambda>x. x = Fin 0)\<rparr>"

section \<open>Properties\<close>

subsection \<open>The loops\<close>

text \<open>
  Writing the positions \<open>0, ..., k - 1\<close> in order fills a prefix of the buffer and leaves
  the rest as it was.
\<close>

lemma fold_update_upt:
  "k \<le> length d \<Longrightarrow> fold (\<lambda>i d. d[i := v i]) [0..<k] d = map v [0..<k] @ drop k d"
proof (induction k)
  case 0
  then show ?case by simp
next
  case (Suc k)
  then have k: "k < length d" by simp
  have "fold (\<lambda>i d. d[i := v i]) [0..<Suc k] d = (map v [0..<k] @ drop k d)[k := v k]"
    using Suc by simp
  also have "\<dots> = map v [0..<k] @ (drop k d)[0 := v k]"
    by (simp add: list_update_append)
  also have "drop k d = d ! k # drop (Suc k) d"
    using k by (simp add: Cons_nth_drop_Suc)
  finally show ?case by simp
qed

lemma fold_update_all:
  "length d = n \<Longrightarrow> fold (\<lambda>i d. d[i := v i]) [0..<n] d = map v [0..<n]"
  by (simp add: fold_update_upt)

lemma binary_loop_sizes_ok:
  "(\<forall>i\<in>set is. fn (operand_elem a (sizes out) i) (operand_elem b (sizes out) i) = Inr (v i)) \<Longrightarrow>
   binary_loop fn a b is out = Inr (out\<lparr>data := fold (\<lambda>i d. d[i := v i]) is (data out)\<rparr>)"
  by (induction "is" arbitrary: out) simp_all

lemma binary_loop_fail:
  "(\<forall>i\<in>set pre. fn (operand_elem a (sizes out) i) (operand_elem b (sizes out) i) = Inr (v i)) \<Longrightarrow>
   fn (operand_elem a (sizes out) k) (operand_elem b (sizes out) k) = Inl e \<Longrightarrow>
   binary_loop fn a b (pre @ k # post) out =
     Inl (e, out\<lparr>data := fold (\<lambda>i d. d[i := v i]) pre (data out)\<rparr>)"
  by (induction pre arbitrary: out) simp_all

lemma unary_loop_fold:
  "unary_loop fn data_in is data_out = fold (\<lambda>i d. d[i := fn (data_in ! i)]) is data_out"
  by (induction "is" arbitrary: data_out) simp_all

lemma apply_unary_map_fn_map:
  "length data_out = count \<Longrightarrow>
   apply_unary_map_fn fn data_in data_out count = map (\<lambda>i. fn (data_in ! i)) [0..<count]"
  by (simp add: apply_unary_map_fn_def unary_loop_fold fold_update_all)

lemma resize_tensor_Some:
  "resize_tensor P t s = Some t' \<Longrightarrow> sizes t' = s \<and> scalar_type t' = scalar_type t"
  by (auto simp: resize_tensor_def split: if_splits option.splits)

lemma resize_tensor_wf:
  "realloc_ok P \<Longrightarrow> wf_tensor t \<Longrightarrow> resize_tensor P t s = Some t' \<Longrightarrow> wf_tensor t'"
  by (auto simp: resize_tensor_def realloc_ok_def wf_tensor_def split: if_splits option.splits)

lemma resize_tensor_same: "resize_tensor P t (sizes t) = Some t"
  by (simp add: resize_tensor_def)

lemma resize_to_broadcast_Inr:
  "resize_to_broadcast_target_size P a b out = Inr out1 \<Longrightarrow>
   broadcastShape (sizes a) (sizes b) = Some (sizes out1) \<and> scalar_type out1 = scalar_type out
   \<and> resize_tensor P out (sizes out1) = Some out1"
  by (auto simp: resize_to_broadcast_target_size_def dest: resize_tensor_Some
      split: option.splits)

lemma resize_to_broadcast_wf:
  "realloc_ok P \<Longrightarrow> wf_tensor out \<Longrightarrow> resize_to_broadcast_target_size P a b out = Inr out1 \<Longrightarrow>
   wf_tensor out1"
  by (auto simp: resize_to_broadcast_target_size_def dest: resize_tensor_wf split: option.splits)

subsection \<open>The tensor entry point, once the checks have passed\<close>

lemma fmod_Tensor_out_checks:
  assumes "resize_to_broadcast_target_size P a b out = Inr out1"
    and "canCast P (promoteTypes (scalar_type a) (scalar_type b)) (scalar_type out)"
    and "REAL_TYPES_AND_Bool (scalar_type a)" and "REAL_TYPES_AND_Bool (scalar_type b)"
    and "REAL_TYPES (promoteTypes (scalar_type a) (scalar_type b))"
    and "REAL_TYPES (scalar_type out)"
  shows "fmod_Tensor_out P a b out =
           binary_loop
             (fmod_elementwise_fn P (promoteTypes (scalar_type a) (scalar_type b))
                (scalar_type a) (scalar_type b) (scalar_type out))
             a b [0..<numel (sizes out1)] out1"
proof -
  have "scalar_type out1 = scalar_type out"
    using assms(1) by (simp add: resize_to_broadcast_Inr)
  then show ?thesis
    using assms by (simp add: fmod_Tensor_out_def apply_binary_elementwise_fn_def Let_def)
qed

lemma fmod_Tensor_out_returns:
  assumes "resize_to_broadcast_target_size P a b out = Inr out1"
    and "wf_tensor out1"
    and "canCast P (promoteTypes (scalar_type a) (scalar_type b)) (scalar_type out)"
    and "REAL_TYPES_AND_Bool (scalar_type a)" and "REAL_TYPES_AND_Bool (scalar_type b)"
    and "REAL_TYPES (promoteTypes (scalar_type a) (scalar_type b))"
    and "REAL_TYPES (scalar_type out)"
    and "\<forall>i<numel (sizes out1).
           \<not> (isIntegralType (promoteTypes (scalar_type a) (scalar_type b)) True \<and>
              elem_is_zero P (operand_elem b (sizes out1) i))"
  shows "fmod_Tensor_out P a b out =
           Inr (out1\<lparr>data :=
             map (\<lambda>i. fmod_value P (promoteTypes (scalar_type a) (scalar_type b))
                         (scalar_type a) (scalar_type b) (scalar_type out)
                         (operand_elem a (sizes out1) i) (operand_elem b (sizes out1) i))
               [0..<numel (sizes out1)]\<rparr>)"
proof -
  let ?ct = "promoteTypes (scalar_type a) (scalar_type b)"
  let ?v = "\<lambda>i. fmod_value P ?ct (scalar_type a) (scalar_type b) (scalar_type out)
                  (operand_elem a (sizes out1) i) (operand_elem b (sizes out1) i)"
  have "\<forall>i\<in>set [0..<numel (sizes out1)].
          fmod_elementwise_fn P ?ct (scalar_type a) (scalar_type b) (scalar_type out)
            (operand_elem a (sizes out1) i) (operand_elem b (sizes out1) i) = Inr (?v i)"
    using assms(8) by (simp add: fmod_elementwise_fn_def)
  then have "binary_loop (fmod_elementwise_fn P ?ct (scalar_type a) (scalar_type b) (scalar_type out))
               a b [0..<numel (sizes out1)] out1 =
             Inr (out1\<lparr>data := fold (\<lambda>i d. d[i := ?v i]) [0..<numel (sizes out1)] (data out1)\<rparr>)"
    by (rule binary_loop_sizes_ok)
  moreover have "fold (\<lambda>i d. d[i := ?v i]) [0..<numel (sizes out1)] (data out1) =
                 map ?v [0..<numel (sizes out1)]"
    using assms(2) by (simp add: fold_update_all wf_tensor_def)
  ultimately show ?thesis
    using fmod_Tensor_out_checks [OF assms(1) assms(3-7)] by simp
qed

lemma fmod_Tensor_out_aborts:
  assumes "resize_to_broadcast_target_size P a b out = Inr out1"
    and "wf_tensor out1"
    and "canCast P (promoteTypes (scalar_type a) (scalar_type b)) (scalar_type out)"
    and "REAL_TYPES_AND_Bool (scalar_type a)" and "REAL_TYPES_AND_Bool (scalar_type b)"
    and "REAL_TYPES (promoteTypes (scalar_type a) (scalar_type b))"
    and "REAL_TYPES (scalar_type out)"
    and "isIntegralType (promoteTypes (scalar_type a) (scalar_type b)) True"
    and "k < numel (sizes out1)"
    and "elem_is_zero P (operand_elem b (sizes out1) k)"
    and "\<forall>i<k. \<not> elem_is_zero P (operand_elem b (sizes out1) i)"
  shows "fmod_Tensor_out P a b out =
           Inl (DomainViolation, out1\<lparr>data :=
             map (\<lambda>i. fmod_value P (promoteTypes (scalar_type a) (scalar_type b))
                         (scalar_type a) (scalar_type b) (scalar_type out)
                         (operand_elem a (sizes out1) i) (operand_elem b (sizes out1) i))
               [0..<k] @ drop k (data out1)\<rparr>)"
proof -
  let ?ct = "promoteTypes (scalar_type a) (scalar_type b)"
  let ?fn = "fmod_elementwise_fn P ?ct (scalar_type a) (scalar_type b) (scalar_type out)"
  let ?v = "\<lambda>i. fmod_value P ?ct (scalar_type a) (scalar_type b) (scalar_type out)
                  (operand_elem a (sizes out1) i) (operand_elem b (sizes out1) i)"
  let ?n = "numel (sizes out1)"
  have split: "[0..<?n] = [0..<k] @ k # [Suc k..<?n]"
    using assms(9) by (metis le_add1 less_imp_add_positive upt_add_eq_append upt_conv_Cons add_0)
  have pre: "\<forall>i\<in>set [0..<k]. ?fn (operand_elem a (sizes out1) i) (operand_elem b (sizes out1) i) = Inr (?v i)"
    using assms(11) by (simp add: fmod_elementwise_fn_def)
  have at: "?fn (operand_elem a (sizes out1) k) (operand_elem b (sizes out1) k) = Inl DomainViolation"
    using assms(8,10) by (simp add: fmod_elementwise_fn_def)
  have "binary_loop ?fn a b ([0..<k] @ k # [Suc k..<?n]) out1 =
          Inl (DomainViolation, out1\<lparr>data := fold (\<lambda>i d. d[i := ?v i]) [0..<k] (data out1)\<rparr>)"
    using pre at by (rule binary_loop_fail)
  moreover have "fold (\<lambda>i d. d[i := ?v i]) [0..<k] (data out1) = map ?v [0..<k] @ drop k (data out1)"
    using assms(2,9) by (simp add: fold_update_upt wf_tensor_def)
  ultimately show ?thesis
    using fmod_Tensor_out_checks [OF assms(1) assms(3-7)] split by simp
qed

subsection \<open>The scalar entry point, and the first zero divisor\<close>

lemma upt_split: "k < n \<Longrightarrow> [0..<n] = [0..<k] @ k # [Suc k..<n]"
  by (metis le_add1 less_imp_add_positive upt_add_eq_append upt_conv_Cons add_0)

lemma first_zero:
  assumes "\<exists>i<n. Z i"
  shows "\<exists>k::nat. k < n \<and> Z k \<and> (\<forall>i<k. \<not> Z i)"
proof -
  from assms obtain i where i: "i < n" "Z i" by blast
  define k where "k = (LEAST j. Z j)"
  have "Z k" unfolding k_def using i(2) by (rule LeastI)
  moreover have "k \<le> i" unfolding k_def using i(2) by (rule Least_le)
  moreover have "\<forall>j<k. \<not> Z j" unfolding k_def using not_less_Least by blast
  ultimately have "k < n \<and> Z k \<and> (\<forall>i<k. \<not> Z i)" using i(1) by simp
  then show ?thesis by blast
qed

lemma floating_not_integral: "isFloatingType t \<Longrightarrow> \<not> isIntegralType t True"
  by (auto simp: isFloatingType_def isIntegralType_def)

lemma SCALAR_OBJ_TYPES_get_scalar_dtype: "SCALAR_OBJ_TYPES (get_scalar_dtype s)"
  by (cases s) (simp_all add: SCALAR_OBJ_TYPES_def get_scalar_dtype_def)

lemma fmod_Tensor_out_zero:
  assumes "resize_to_broadcast_target_size P a b out = Inr out1"
    and "canCast P (promoteTypes (scalar_type a) (scalar_type b)) (scalar_type out)"
    and "REAL_TYPES_AND_Bool (scalar_type a)" and "REAL_TYPES_AND_Bool (scalar_type b)"
    and "REAL_TYPES (promoteTypes (scalar_type a) (scalar_type b))"
    and "REAL_TYPES (scalar_type out)"
    and "isIntegralType (promoteTypes (scalar_type a) (scalar_type b)) True"
    and "\<exists>i<numel (sizes out1). elem_is_zero P (operand_elem b (sizes out1) i)"
  shows "\<exists>out'. fmod_Tensor_out P a b out = Inl (DomainViolation, out')"
proof -
  let ?ct = "promoteTypes (scalar_type a) (scalar_type b)"
  let ?fn = "fmod_elementwise_fn P ?ct (scalar_type a) (scalar_type b) (scalar_type out)"
  let ?v = "\<lambda>i. fmod_value P ?ct (scalar_type a) (scalar_type b) (scalar_type out)
                  (operand_elem a (sizes out1) i) (operand_elem b (sizes out1) i)"
  let ?n = "numel (sizes out1)"
  from assms(8) obtain k where k: "k < ?n" "elem_is_zero P (operand_elem b (sizes out1) k)"
    "\<forall>i<k. \<not> elem_is_zero P (operand_elem b (sizes out1) i)"
    using first_zero [OF assms(8)] by blast
  have pre: "\<forall>i\<in>set [0..<k]. ?fn (operand_elem a (sizes out1) i) (operand_elem b (sizes out1) i) = Inr (?v i)"
    using k(3) by (simp add: fmod_elementwise_fn_def)
  have at: "?fn (operand_elem a (sizes out1) k) (operand_elem b (sizes out1) k) = Inl DomainViolation"
    using assms(7) k(2) by (simp add: fmod_elementwise_fn_def)
  have "binary_loop ?fn a b ([0..<k] @ k # [Suc k..<?n]) out1 =
          Inl (DomainViolation, out1\<lparr>data := fold (\<lambda>i d. d[i := ?v i]) [0..<k] (data out1)\<rparr>)"
    using pre at by (rule binary_loop_fail)
  then show ?thesis
    using fmod_Tensor_out_checks [OF assms(1-6)] upt_split [OF k(1)] by simp
qed

lemma fmod_Scalar_out_returns:
  assumes "resize_tensor P out (sizes a) = Some out1"
    and "wf_tensor out1"
    and "canCast P (promote_type_with_scalar (scalar_type a) s) (scalar_type out)"
    and "REAL_TYPES_AND_Bool (scalar_type a)"
    and "REAL_TYPES (promote_type_with_scalar (scalar_type a) s)"
    and "REAL_TYPES (scalar_type out)"
    and "\<not> (isIntegralType (promote_type_with_scalar (scalar_type a) s) True \<and>
            elem_is_zero P (extract_scalar s))"
  shows "fmod_Scalar_out P a s out =
           Inr (out1\<lparr>data :=
             map (\<lambda>i. fmod_value P (promote_type_with_scalar (scalar_type a) s)
                         (scalar_type a) (get_scalar_dtype s) (scalar_type out)
                         (data a ! i) (extract_scalar s))
               [0..<numel (sizes a)]\<rparr>)"
proof -
  have t: "scalar_type out1 = scalar_type out" "sizes out1 = sizes a"
    using assms(1) by (simp_all add: resize_tensor_Some)
  have len: "length (data out1) = numel (sizes a)"
    using assms(2) t by (simp add: wf_tensor_def)
  show ?thesis
    using assms t len
    by (simp add: fmod_Scalar_out_def Let_def SCALAR_OBJ_TYPES_get_scalar_dtype
        apply_unary_map_fn_map)
qed

lemma fmod_Scalar_out_zero:
  assumes "resize_tensor P out (sizes a) = Some out1"
    and "canCast P (promote_type_with_scalar (scalar_type a) s) (scalar_type out)"
    and "REAL_TYPES_AND_Bool (scalar_type a)"
    and "REAL_TYPES (promote_type_with_scalar (scalar_type a) s)"
    and "isIntegralType (promote_type_with_scalar (scalar_type a) s) True"
    and "elem_is_zero P (extract_scalar s)"
  shows "fmod_Scalar_out P a s out = Inl (DomainViolation, out1)"
proof -
  have t: "scalar_type out1 = scalar_type out"
    using assms(1) by (simp add: resize_tensor_Some)
  show ?thesis
    using assms t
    by (simp add: fmod_Scalar_out_def Let_def SCALAR_OBJ_TYPES_get_scalar_dtype)
qed

subsection \<open>Shapes that do not broadcast\<close>

lemma broadcast_rev_None:
  "broadcast_rev xs ys = None \<longleftrightarrow>
     (\<exists>i<min (length xs) (length ys). xs ! i \<noteq> ys ! i \<and> xs ! i \<noteq> 1 \<and> ys ! i \<noteq> 1)"
proof (induction xs ys rule: broadcast_rev.induct)
  case (1 ys)
  then show ?case by simp
next
  case (2 x xs)
  then show ?case by simp
next
  case (3 x xs y ys)
  show ?case
  proof (cases "x = y \<or> x = 1 \<or> y = 1")
    case True
    have "(\<exists>i<min (length (x # xs)) (length (y # ys)).
             (x # xs) ! i \<noteq> (y # ys) ! i \<and> (x # xs) ! i \<noteq> 1 \<and> (y # ys) ! i \<noteq> 1) \<longleftrightarrow>
          (\<exists>j<min (length xs) (length ys). xs ! j \<noteq> ys ! j \<and> xs ! j \<noteq> 1 \<and> ys ! j \<noteq> 1)"
      (is "?L \<longleftrightarrow> ?R")
    proof
      assume ?L
      then obtain i where i: "i < min (length (x # xs)) (length (y # ys))"
        "(x # xs) ! i \<noteq> (y # ys) ! i" "(x # xs) ! i \<noteq> 1" "(y # ys) ! i \<noteq> 1" by blast
      with True obtain j where "i = Suc j" by (cases i) auto
      with i show ?R by auto
    next
      assume ?R
      then obtain j where "j < min (length xs) (length ys)"
        "xs ! j \<noteq> ys ! j" "xs ! j \<noteq> 1" "ys ! j \<noteq> 1" by blast
      then have "Suc j < min (length (x # xs)) (length (y # ys)) \<and>
        (x # xs) ! Suc j \<noteq> (y # ys) ! Suc j \<and> (x # xs) ! Suc j \<noteq> 1 \<and> (y # ys) ! Suc j \<noteq> 1"
        by simp
      then show ?L by blast
    qed
    with True 3 show ?thesis by simp
  next
    case False
    then have "0 < min (length (x # xs)) (length (y # ys)) \<and>
        (x # xs) ! 0 \<noteq> (y # ys) ! 0 \<and> (x # xs) ! 0 \<noteq> 1 \<and> (y # ys) ! 0 \<noteq> 1"
      by simp
    then have "\<exists>i<min (length (x # xs)) (length (y # ys)).
             (x # xs) ! i \<noteq> (y # ys) ! i \<and> (x # xs) ! i \<noteq> 1 \<and> (y # ys) ! i \<noteq> 1"
      by blast
    with False show ?thesis by simp
  qed
qed

lemma broadcastShape_None:
  "broadcastShape shapeA shapeB = None \<longleftrightarrow> incompatible_shapes shapeA shapeB"
  by (simp add: broadcastShape_def broadcast_rev_None incompatible_shapes_def Bex_def)


text \<open>
  C5: when the shapes of \<open>a\<close> and \<open>b\<close> are not broadcast-compatible,
  \<open>fmod_Tensor_out\<close> fails with \<open>ShapeMismatch\<close> and the output tensor at the failure
  is the one that was passed in: neither its shape nor its buffer has changed.
\<close>

theorem fmod_Tensor_out_shape_mismatch:
  "incompatible_shapes (sizes a) (sizes b) \<Longrightarrow> fmod_Tensor_out P a b out = Inl (ShapeMismatch, out)"
  by (simp add: fmod_Tensor_out_def resize_to_broadcast_target_size_def broadcastShape_None [symmetric])

theorem fmod_Tensor_out_shape_mismatch_witness:
  "incompatible_shapes [3, 4] [3, 5] \<and>
   fmod_Tensor_out ideal_platform
     \<lparr>sizes = [3, 4], scalar_type = Float, data = replicate 12 (FloatV (Fin 1))\<rparr>
     \<lparr>sizes = [3, 5], scalar_type = Float, data = replicate 15 (FloatV (Fin 2))\<rparr>
     \<lparr>sizes = [1], scalar_type = Float, data = [FloatV (Fin 7)]\<rparr>
   = Inl (ShapeMismatch, \<lparr>sizes = [1], scalar_type = Float, data = [FloatV (Fin 7)]\<rparr>)"
proof -
  have h: "incompatible_shapes [3, 4] [3, 5]"
    by (simp add: incompatible_shapes_def)
  show ?thesis
    using h fmod_Tensor_out_shape_mismatch [of "\<lparr>sizes = [3, 4], scalar_type = Float, data = replicate 12 (FloatV (Fin 1))\<rparr>"
        "\<lparr>sizes = [3, 5], scalar_type = Float, data = replicate 15 (FloatV (Fin 2))\<rparr>"
        ideal_platform "\<lparr>sizes = [1], scalar_type = Float, data = [FloatV (Fin 7)]\<rparr>"]
    by simp
qed

subsection \<open>Where a failure comes from\<close>

lemma binary_loop_error:
  "binary_loop fn a b is out = Inl (e, out') \<Longrightarrow> \<exists>x y. fn x y = Inl e"
  by (induction "is" arbitrary: out) (auto split: sum.splits)

lemma fmod_elementwise_fn_error:
  "fmod_elementwise_fn P ct ta tb ot x y = Inl e \<Longrightarrow> e = DomainViolation"
  by (auto simp: fmod_elementwise_fn_def split: if_splits)

lemma resize_to_broadcast_error:
  "resize_to_broadcast_target_size P a b out = Inl e \<Longrightarrow> e = ShapeMismatch \<or> e = ResizeFailed"
  by (auto simp: resize_to_broadcast_target_size_def split: option.splits)


text \<open>The definitions that evaluate a call on concrete tensors.\<close>

lemmas eval_defs = fmod_Tensor_out_def fmod_Scalar_out_def resize_to_broadcast_target_size_def broadcastShape_def resize_tensor_def
    ideal_platform_def cast_policy_def promoteTypes_def isFloatingType_def isIntegralType_def REAL_TYPES_def REAL_TYPES_AND_Bool_def
    SCALAR_OBJ_TYPES_def get_scalar_dtype_def promote_type_with_scalar_def extract_scalar_def
    apply_binary_elementwise_fn_def apply_unary_map_fn_def numel_def fmod_elementwise_fn_def fmod_value_def static_cast_def std_fmod_def
    fmod_int_def int_to_double_def wrap_int_def elem_is_zero_def operand_elem_def operand_index_def Let_def
    ideal_fmod_def ideal_trunc_def upt_conv_Cons


subsection \<open>The cast check\<close>

text \<open>
  C4, as the claim states it, fails: the cast check comes after the resize (lines 30
  and 37, lines 84 and 91). A tensor call whose shapes do not broadcast fails with
  \<open>ShapeMismatch\<close>, and a scalar call whose resize fails (here: on a platform whose
  allocator fails) fails at line 84, although in both the common type cannot be cast to
  the output type.
\<close>

theorem cast_check_after_resize_counterexample:
  "\<not> canCast ideal_platform (promoteTypes Float Float) IntT \<and>
   fmod_Tensor_out ideal_platform
     \<lparr>sizes = [3, 4], scalar_type = Float, data = replicate 12 (FloatV (Fin 1))\<rparr>
     \<lparr>sizes = [3, 5], scalar_type = Float, data = replicate 15 (FloatV (Fin 2))\<rparr>
     \<lparr>sizes = [1], scalar_type = IntT, data = [IntV 7]\<rparr>
   = Inl (ShapeMismatch, \<lparr>sizes = [1], scalar_type = IntT, data = [IntV 7]\<rparr>) \<and>
   \<not> canCast (ideal_platform\<lparr>realloc := \<lambda>old n. None\<rparr>)
       (promote_type_with_scalar Float (IntS 2 :: ideal_float Scalar)) IntT \<and>
   fmod_Scalar_out (ideal_platform\<lparr>realloc := \<lambda>old n. None\<rparr>)
     \<lparr>sizes = [2], scalar_type = Float, data = [FloatV (Fin 1), FloatV (Fin 2)]\<rparr>
     (IntS 2)
     \<lparr>sizes = [3], scalar_type = IntT, data = [IntV 7, IntV 8, IntV 9]\<rparr>
   = Inl (ResizeFailed, \<lparr>sizes = [3], scalar_type = IntT, data = [IntV 7, IntV 8, IntV 9]\<rparr>)"
  by (simp add: eval_defs)


text \<open>
  C4, amended: when the common type cannot be cast to the output type, the call fails
  without computing or writing an element. If the resize failed, the failure is the
  resize's and \<open>out\<close> is unchanged; otherwise it is \<open>CastNotAllowed\<close> and \<open>out\<close> is
  exactly what the resize left. This holds for both entry points.
\<close>

theorem cast_not_allowed_before_compute:
  "(\<not> canCast P (promoteTypes (scalar_type a) (scalar_type b)) (scalar_type out) \<longrightarrow>
      fmod_Tensor_out P a b out =
        (case resize_to_broadcast_target_size P a b out of
           Inl e \<Rightarrow> Inl (e, out)
         | Inr out1 \<Rightarrow> Inl (CastNotAllowed, out1))) \<and>
   (\<not> canCast P (promote_type_with_scalar (scalar_type a') s) (scalar_type out') \<longrightarrow>
      fmod_Scalar_out P a' s out' =
        (case resize_tensor P out' (sizes a') of
           None \<Rightarrow> Inl (ResizeFailed, out')
         | Some out1 \<Rightarrow> Inl (CastNotAllowed, out1)))"
proof (intro conjI impI)
  assume "\<not> canCast P (promoteTypes (scalar_type a) (scalar_type b)) (scalar_type out)"
  then show "fmod_Tensor_out P a b out =
        (case resize_to_broadcast_target_size P a b out of
           Inl e \<Rightarrow> Inl (e, out)
         | Inr out1 \<Rightarrow> Inl (CastNotAllowed, out1))"
    by (cases "resize_to_broadcast_target_size P a b out")
       (simp_all add: fmod_Tensor_out_def resize_to_broadcast_Inr)
next
  assume "\<not> canCast P (promote_type_with_scalar (scalar_type a') s) (scalar_type out')"
  then show "fmod_Scalar_out P a' s out' =
        (case resize_tensor P out' (sizes a') of
           None \<Rightarrow> Inl (ResizeFailed, out')
         | Some out1 \<Rightarrow> Inl (CastNotAllowed, out1))"
    by (cases "resize_tensor P out' (sizes a')")
       (simp_all add: fmod_Scalar_out_def resize_tensor_Some)
qed

theorem cast_not_allowed_before_compute_witness:
  "\<not> canCast ideal_platform (promoteTypes Float Float) IntT \<and>
   fmod_Tensor_out ideal_platform
     \<lparr>sizes = [2], scalar_type = Float, data = [FloatV (Fin 1), FloatV (Fin 2)]\<rparr>
     \<lparr>sizes = [2], scalar_type = Float, data = [FloatV (Fin 2), FloatV (Fin 3)]\<rparr>
     \<lparr>sizes = [3], scalar_type = IntT, data = [IntV 7, IntV 8, IntV 9]\<rparr>
   = Inl (CastNotAllowed, \<lparr>sizes = [2], scalar_type = IntT, data = [IntV 0, IntV 0]\<rparr>) \<and>
   \<not> canCast ideal_platform (promote_type_with_scalar Float (IntS 2 :: ideal_float Scalar)) IntT \<and>
   fmod_Scalar_out ideal_platform
     \<lparr>sizes = [2], scalar_type = Float, data = [FloatV (Fin 1), FloatV (Fin 2)]\<rparr>
     (IntS 2)
     \<lparr>sizes = [2], scalar_type = IntT, data = [IntV 7, IntV 8]\<rparr>
   = Inl (CastNotAllowed, \<lparr>sizes = [2], scalar_type = IntT, data = [IntV 7, IntV 8]\<rparr>)"
proof -
  have h1: "\<not> canCast ideal_platform (promoteTypes Float Float) IntT"
    by (simp add: ideal_platform_def cast_policy_def promoteTypes_def isFloatingType_def isIntegralType_def)
  have h2: "\<not> canCast ideal_platform (promote_type_with_scalar Float (IntS 2 :: ideal_float Scalar)) IntT"
    by (simp add: ideal_platform_def cast_policy_def promoteTypes_def isFloatingType_def
        isIntegralType_def promote_type_with_scalar_def get_scalar_dtype_def)
  have r1: "resize_to_broadcast_target_size ideal_platform
     \<lparr>sizes = [2], scalar_type = Float, data = [FloatV (Fin 1), FloatV (Fin 2)]\<rparr>
     \<lparr>sizes = [2], scalar_type = Float, data = [FloatV (Fin 2), FloatV (Fin 3)]\<rparr>
     \<lparr>sizes = [3], scalar_type = IntT, data = [IntV 7, IntV 8, IntV 9]\<rparr> =
     Inr \<lparr>sizes = [2], scalar_type = IntT, data = [IntV 0, IntV 0]\<rparr>"
    by (simp add: resize_to_broadcast_target_size_def broadcastShape_def resize_tensor_def
        ideal_platform_def numel_def numeral_2_eq_2)
  have r2: "resize_tensor ideal_platform
     \<lparr>sizes = [2], scalar_type = IntT, data = [IntV 7, IntV 8]\<rparr> [2] =
     Some \<lparr>sizes = [2], scalar_type = IntT, data = [IntV 7, IntV 8]\<rparr>"
    by (simp add: resize_tensor_def)
  show ?thesis
    using h1 h2 cast_not_allowed_before_compute [of ideal_platform
        "\<lparr>sizes = [2], scalar_type = Float, data = [FloatV (Fin 1), FloatV (Fin 2)]\<rparr>"
        "\<lparr>sizes = [2], scalar_type = Float, data = [FloatV (Fin 2), FloatV (Fin 3)]\<rparr>"
        "\<lparr>sizes = [3], scalar_type = IntT, data = [IntV 7, IntV 8, IntV 9]\<rparr>"
        "\<lparr>sizes = [2], scalar_type = Float, data = [FloatV (Fin 1), FloatV (Fin 2)]\<rparr>"
        "IntS 2"
        "\<lparr>sizes = [2], scalar_type = IntT, data = [IntV 7, IntV 8]\<rparr>"]
    by (simp add: r1 r2)
qed


subsection \<open>Two boolean inputs\<close>

lemma promote_Bool_Bool: "promoteTypes Bool Bool = Bool"
  by (simp add: promoteTypes_def)


text \<open>
  C9: when both inputs of \<open>fmod_Tensor_out\<close> have boolean element type, the common type
  is boolean, which the compute-type switch does not cover. The call never returns; and
  when it gets as far as the dispatch (the resize succeeded and the cast check passed) it
  fails with \<open>UnsupportedType\<close>, with \<open>out\<close> as the resize left it.
\<close>

theorem fmod_Tensor_out_all_bool_unsupported:
  assumes "scalar_type a = Bool" and "scalar_type b = Bool"
  shows "(\<forall>r. fmod_Tensor_out P a b out \<noteq> Inr r) \<and>
         (\<forall>out1. resize_to_broadcast_target_size P a b out = Inr out1 \<longrightarrow>
                 canCast P Bool (scalar_type out) \<longrightarrow>
                 fmod_Tensor_out P a b out = Inl (UnsupportedType, out1))"
proof (intro conjI allI impI)
  fix r
  show "fmod_Tensor_out P a b out \<noteq> Inr r"
    using assms
    by (cases "resize_to_broadcast_target_size P a b out")
       (simp_all add: fmod_Tensor_out_def Let_def promote_Bool_Bool REAL_TYPES_def)
next
  fix out1
  assume "resize_to_broadcast_target_size P a b out = Inr out1"
    and "canCast P Bool (scalar_type out)"
  then show "fmod_Tensor_out P a b out = Inl (UnsupportedType, out1)"
    using assms
    by (simp add: fmod_Tensor_out_def Let_def promote_Bool_Bool REAL_TYPES_def
        REAL_TYPES_AND_Bool_def resize_to_broadcast_Inr)
qed

theorem fmod_Tensor_out_all_bool_unsupported_witness:
  "scalar_type \<lparr>sizes = [2], scalar_type = Bool, data = [BoolV True, BoolV False]\<rparr> = Bool \<and>
   canCast ideal_platform Bool IntT \<and>
   fmod_Tensor_out ideal_platform
     \<lparr>sizes = [2], scalar_type = Bool, data = [BoolV True, BoolV False]\<rparr>
     \<lparr>sizes = [2], scalar_type = Bool, data = [BoolV True, BoolV True]\<rparr>
     \<lparr>sizes = [2], scalar_type = IntT, data = [IntV 7, IntV 8]\<rparr>
   = Inl (UnsupportedType, \<lparr>sizes = [2], scalar_type = IntT, data = [IntV 7, IntV 8]\<rparr>)"
proof -
  have t: "scalar_type \<lparr>sizes = [2], scalar_type = Bool, data = [BoolV True, BoolV False]\<rparr> = Bool"
    "scalar_type \<lparr>sizes = [2], scalar_type = Bool, data = [BoolV True, BoolV True]\<rparr> = Bool"
    by simp_all
  have c: "canCast ideal_platform Bool IntT"
    by (simp add: ideal_platform_def cast_policy_def isFloatingType_def)
  have r: "resize_to_broadcast_target_size ideal_platform
     \<lparr>sizes = [2], scalar_type = Bool, data = [BoolV True, BoolV False]\<rparr>
     \<lparr>sizes = [2], scalar_type = Bool, data = [BoolV True, BoolV True]\<rparr>
     \<lparr>sizes = [2], scalar_type = IntT, data = [IntV 7, IntV 8]\<rparr> =
     Inr \<lparr>sizes = [2], scalar_type = IntT, data = [IntV 7, IntV 8]\<rparr>"
    by (simp add: resize_to_broadcast_target_size_def broadcastShape_def resize_tensor_def)
  show ?thesis
    using t c r fmod_Tensor_out_all_bool_unsupported [OF t, of ideal_platform "\<lparr>sizes = [2], scalar_type = IntT, data = [IntV 7, IntV 8]\<rparr>"]
    by simp
qed


subsection \<open>A zero divisor in the tensor case\<close>

lemma promoteTypes_integral:
  "isIntegralType (promoteTypes x y) False \<Longrightarrow>
   REAL_TYPES_AND_Bool x \<and> REAL_TYPES_AND_Bool y \<and> REAL_TYPES (promoteTypes x y) \<and>
   isIntegralType (promoteTypes x y) True"
  by (cases x; cases y;
      simp add: promoteTypes_def isFloatingType_def isIntegralType_def REAL_TYPES_def
        REAL_TYPES_AND_Bool_def)


text \<open>
  C2, as the claim states it, fails: the zero check is part of the per-element function,
  so the positions before the first zero divisor have been written when the call aborts.
  With \<open>a = [5, 7]\<close>, \<open>b = [2, 0]\<close> and an output holding \<open>[9, 9]\<close>, the call aborts
  with the output holding \<open>[1, 9]\<close>.
\<close>

theorem zero_divisor_partial_write_counterexample:
  "fmod_Tensor_out ideal_platform
     \<lparr>sizes = [2], scalar_type = IntT, data = [IntV 5, IntV 7]\<rparr>
     \<lparr>sizes = [2], scalar_type = IntT, data = [IntV 2, IntV 0]\<rparr>
     \<lparr>sizes = [2], scalar_type = IntT, data = [IntV 9, IntV 9]\<rparr>
   = Inl (DomainViolation, \<lparr>sizes = [2], scalar_type = IntT, data = [IntV 1, IntV 9]\<rparr>)"
  by (simp add: eval_defs)

text \<open>
  C2, amended: in a call with an integral common type that has passed the checks, let
  \<open>k\<close> be the first position, in row-major order, whose divisor is zero. The call aborts
  with \<open>DomainViolation\<close>; the positions before \<open>k\<close> hold their results, and position
  \<open>k\<close> and all later ones hold what the buffer held after the resize.
\<close>

theorem zero_divisor_abort_position:
  assumes "realloc_ok P" and "wf_tensor out"
    and "resize_to_broadcast_target_size P a b out = Inr out1"
    and "canCast P (promoteTypes (scalar_type a) (scalar_type b)) (scalar_type out)"
    and "isIntegralType (promoteTypes (scalar_type a) (scalar_type b)) False"
    and "REAL_TYPES (scalar_type out)"
    and "k < numel (sizes out1)"
    and "elem_is_zero P (operand_elem b (sizes out1) k)"
    and "\<forall>i<k. \<not> elem_is_zero P (operand_elem b (sizes out1) i)"
  shows "fmod_Tensor_out P a b out =
           Inl (DomainViolation, out1\<lparr>data :=
             map (\<lambda>i. fmod_value P (promoteTypes (scalar_type a) (scalar_type b))
                         (scalar_type a) (scalar_type b) (scalar_type out)
                         (operand_elem a (sizes out1) i) (operand_elem b (sizes out1) i))
               [0..<k] @ drop k (data out1)\<rparr>)"
proof -
  have wf: "wf_tensor out1"
    using assms(1-3) by (rule resize_to_broadcast_wf)
  note t = promoteTypes_integral [OF assms(5)]
  show ?thesis
    using assms(3) wf assms(4) t [THEN conjunct1] t [THEN conjunct2, THEN conjunct1]
      t [THEN conjunct2, THEN conjunct2, THEN conjunct1] assms(6)
      t [THEN conjunct2, THEN conjunct2, THEN conjunct2] assms(7-9)
    by (rule fmod_Tensor_out_aborts)
qed

theorem zero_divisor_abort_position_witness:
  "realloc_ok ideal_platform \<and>
   wf_tensor \<lparr>sizes = [3], scalar_type = IntT, data = [IntV 9, IntV 9, IntV 9 :: ideal_float elem]\<rparr> \<and>
   fmod_Tensor_out ideal_platform
     \<lparr>sizes = [3], scalar_type = IntT, data = [IntV 5, IntV 7, IntV 8]\<rparr>
     \<lparr>sizes = [3], scalar_type = IntT, data = [IntV 2, IntV 0, IntV 3]\<rparr>
     \<lparr>sizes = [3], scalar_type = IntT, data = [IntV 9, IntV 9, IntV 9]\<rparr>
   = Inl (DomainViolation, \<lparr>sizes = [3], scalar_type = IntT, data = [IntV 1, IntV 9, IntV 9]\<rparr>)"
proof -
  let ?a = "\<lparr>sizes = [3], scalar_type = IntT, data = [IntV 5, IntV 7, IntV 8 :: ideal_float elem]\<rparr>"
  let ?b = "\<lparr>sizes = [3], scalar_type = IntT, data = [IntV 2, IntV 0, IntV 3 :: ideal_float elem]\<rparr>"
  let ?out = "\<lparr>sizes = [3], scalar_type = IntT, data = [IntV 9, IntV 9, IntV 9 :: ideal_float elem]\<rparr>"
  have h1: "realloc_ok ideal_platform"
    by (simp add: realloc_ok_def ideal_platform_def)
  have h2: "wf_tensor ?out"
    by (simp add: wf_tensor_def numel_def)
  have h3: "resize_to_broadcast_target_size ideal_platform ?a ?b ?out = Inr ?out"
    by (simp add: resize_to_broadcast_target_size_def broadcastShape_def resize_tensor_def)
  have h4: "canCast ideal_platform (promoteTypes (scalar_type ?a) (scalar_type ?b)) (scalar_type ?out)"
    by (simp add: ideal_platform_def cast_policy_def promoteTypes_def isFloatingType_def)
  have h5: "isIntegralType (promoteTypes (scalar_type ?a) (scalar_type ?b)) False"
    by (simp add: promoteTypes_def isIntegralType_def)
  have h6: "REAL_TYPES (scalar_type ?out)"
    by (simp add: REAL_TYPES_def)
  have h7: "Suc 0 < numel (sizes ?out)"
    by (simp add: numel_def)
  have h8: "elem_is_zero ideal_platform (operand_elem ?b (sizes ?out) (Suc 0))"
    by (simp add: elem_is_zero_def operand_elem_def operand_index_def)
  have h9: "\<forall>i<Suc 0. \<not> elem_is_zero ideal_platform (operand_elem ?b (sizes ?out) i)"
    by (simp add: elem_is_zero_def operand_elem_def operand_index_def)
  have v: "fmod_value ideal_platform IntT IntT IntT IntT (IntV 5) (IntV 2) = IntV 1"
    by (simp add: fmod_value_def static_cast_def std_fmod_def isFloatingType_def
        fmod_int_def int_to_double_def wrap_int_def)
  show ?thesis
    using h1 h2 zero_divisor_abort_position [OF h1 h2 h3 h4 h5 h6 h7 h8 h9]
    by (simp add: promoteTypes_def operand_elem_def operand_index_def v)
qed

subsection \<open>The integer example\<close>

lemma fmod_value_IntT:
  "fmod_value P IntT IntT IntT IntT (IntV 5) (IntV 2) = IntV 1"
  "fmod_value P IntT IntT IntT IntT (IntV 7) (IntV 2) = IntV 1"
  "fmod_value P IntT IntT IntT IntT (IntV (- 3)) (IntV 2) = IntV (- 1)"
  by (simp_all add: fmod_value_def static_cast_def std_fmod_def isFloatingType_def
        fmod_int_def int_to_double_def wrap_int_def)


lemma int_tensor_example:
  assumes "canCast P IntT IntT" and "realloc_ok P" and "wf_tensor out"
    and "scalar_type out = IntT" and "resize_tensor P out [3] = Some out1"
  shows "fmod_Tensor_out P
           \<lparr>sizes = [3], scalar_type = IntT, data = [IntV 5, IntV 7, IntV (- 3)]\<rparr>
           \<lparr>sizes = [3], scalar_type = IntT, data = [IntV 2, IntV 2, IntV 2]\<rparr>
           out
         = Inr (out1\<lparr>data := [IntV 1, IntV 1, IntV (- 1)]\<rparr>)"
proof -
  let ?a = "\<lparr>sizes = [3], scalar_type = IntT, data = [IntV 5, IntV 7, IntV (- 3) :: 'a elem]\<rparr>"
  let ?b = "\<lparr>sizes = [3], scalar_type = IntT, data = [IntV 2, IntV 2, IntV 2 :: 'a elem]\<rparr>"
  have r: "resize_to_broadcast_target_size P ?a ?b out = Inr out1"
    using assms(5) by (simp add: resize_to_broadcast_target_size_def broadcastShape_def)
  have wf: "wf_tensor out1"
    using assms(2,3,5) by (rule resize_tensor_wf)
  have s: "sizes out1 = [3]"
    using assms(5) by (simp add: resize_tensor_Some)
  have ct: "promoteTypes (scalar_type ?a) (scalar_type ?b) = IntT" "promoteTypes IntT IntT = IntT"
    by (simp_all add: promoteTypes_def)
  have idx: "[0..<numel [3]] = [0, Suc 0, Suc (Suc 0)]"
    by (simp add: numel_def upt_conv_Cons)
  have nz: "\<forall>i<numel (sizes out1).
           \<not> (isIntegralType (promoteTypes (scalar_type ?a) (scalar_type ?b)) True \<and>
              elem_is_zero P (operand_elem ?b (sizes out1) i))"
  proof (intro allI impI)
    fix i assume "i < numel (sizes out1)"
    then have "i = 0 \<or> i = Suc 0 \<or> i = Suc (Suc 0)"
      by (auto simp: s numel_def)
    then show "\<not> (isIntegralType (promoteTypes (scalar_type ?a) (scalar_type ?b)) True \<and>
              elem_is_zero P (operand_elem ?b (sizes out1) i))"
      by (auto simp: s operand_elem_def operand_index_def elem_is_zero_def)
  qed
  have "fmod_Tensor_out P ?a ?b out =
          Inr (out1\<lparr>data :=
             map (\<lambda>i. fmod_value P (promoteTypes (scalar_type ?a) (scalar_type ?b))
                         (scalar_type ?a) (scalar_type ?b) (scalar_type out)
                         (operand_elem ?a (sizes out1) i) (operand_elem ?b (sizes out1) i))
               [0..<numel (sizes out1)]\<rparr>)"
    using r wf _ _ _ _ _ nz
    by (rule fmod_Tensor_out_returns)
       (simp_all add: ct assms REAL_TYPES_def REAL_TYPES_AND_Bool_def)
  then show ?thesis
    by (simp add: idx ct assms(4) s operand_elem_def operand_index_def fmod_value_IntT)
qed


lemma replicate_3: "replicate 3 x = [x, x, x]"
  by (simp add: numeral_3_eq_3)

lemma fmod_value_Long:
  "fmod_value P Long IntT Long IntT (IntV 5) (IntV 2) = IntV 1"
  "fmod_value P Long IntT Long IntT (IntV 7) (IntV 2) = IntV 1"
  "fmod_value P Long IntT Long IntT (IntV (- 3)) (IntV 2) = IntV (- 1)"
  by (simp_all add: fmod_value_def static_cast_def std_fmod_def isFloatingType_def
        fmod_int_def int_to_double_def wrap_int_def)

lemma int_scalar_example:
  fixes P :: "'f platform"
  assumes "canCast P Long IntT" and "realloc_ok P" and "wf_tensor out"
    and "scalar_type out = IntT" and "resize_tensor P out [3] = Some out1"
  shows "fmod_Scalar_out P
           \<lparr>sizes = [3], scalar_type = IntT, data = [IntV 5, IntV 7, IntV (- 3)]\<rparr>
           (IntS 2) out
         = Inr (out1\<lparr>data := [IntV 1, IntV 1, IntV (- 1)]\<rparr>)"
proof -
  let ?a = "\<lparr>sizes = [3], scalar_type = IntT, data = [IntV 5, IntV 7, IntV (- 3) :: 'f elem]\<rparr>"
  let ?s = "IntS 2 :: 'f Scalar"
  have ct: "promote_type_with_scalar IntT ?s = Long"
    by (simp add: promote_type_with_scalar_def get_scalar_dtype_def promoteTypes_def
        isFloatingType_def)
  have r: "resize_tensor P out (sizes ?a) = Some out1"
    using assms(5) by simp
  have wf: "wf_tensor out1"
    using assms(2,3,5) by (rule resize_tensor_wf)
  have idx: "[0..<numel [3]] = [0, Suc 0, Suc (Suc 0)]"
    by (simp add: numel_def upt_conv_Cons)
  have "fmod_Scalar_out P ?a ?s out =
           Inr (out1\<lparr>data :=
             map (\<lambda>i. fmod_value P (promote_type_with_scalar (scalar_type ?a) ?s)
                         (scalar_type ?a) (get_scalar_dtype ?s) (scalar_type out)
                         (data ?a ! i) (extract_scalar ?s))
               [0..<numel (sizes ?a)]\<rparr>)"
    using r wf
    by (rule fmod_Scalar_out_returns)
       (simp_all add: ct assms REAL_TYPES_def REAL_TYPES_AND_Bool_def isIntegralType_def
          elem_is_zero_def extract_scalar_def)
  then show ?thesis
    by (simp add: ct assms(4) idx extract_scalar_def get_scalar_dtype_def fmod_value_Long)
qed

text \<open>
  C3: for the \<open>IntT\<close> tensors \<open>a = [5, 7, -3]\<close> and \<open>b = [2, 2, 2]\<close> and an \<open>IntT\<close>
  output, \<open>fmod_Tensor_out\<close> returns with \<open>[1, 1, -1]\<close> in the output, on every
  platform that allows the cast from \<open>IntT\<close> to itself and whose resize of the output
  to shape \<open>[3]\<close> succeeds.
\<close>

theorem fmod_Tensor_out_int_example:
  assumes "canCast P IntT IntT" and "realloc_ok P" and "wf_tensor out"
    and "scalar_type out = IntT" and "resize_tensor P out [3] = Some out1"
  shows "fmod_Tensor_out P
           \<lparr>sizes = [3], scalar_type = IntT, data = [IntV 5, IntV 7, IntV (- 3)]\<rparr>
           \<lparr>sizes = [3], scalar_type = IntT, data = [IntV 2, IntV 2, IntV 2]\<rparr>
           out
         = Inr (out1\<lparr>data := [IntV 1, IntV 1, IntV (- 1)]\<rparr>)"
  using assms by (rule int_tensor_example)

theorem fmod_Tensor_out_int_example_witness:
  "canCast ideal_platform IntT IntT \<and> realloc_ok ideal_platform \<and>
   fmod_Tensor_out ideal_platform
     \<lparr>sizes = [3], scalar_type = IntT, data = [IntV 5, IntV 7, IntV (- 3)]\<rparr>
     \<lparr>sizes = [3], scalar_type = IntT, data = [IntV 2, IntV 2, IntV 2]\<rparr>
     \<lparr>sizes = [2], scalar_type = IntT, data = [IntV 9, IntV 9]\<rparr>
   = Inr \<lparr>sizes = [3], scalar_type = IntT, data = [IntV 1, IntV 1, IntV (- 1)]\<rparr>"
proof -
  let ?out = "\<lparr>sizes = [2], scalar_type = IntT, data = [IntV 9, IntV 9 :: ideal_float elem]\<rparr>"
  have h1: "canCast ideal_platform IntT IntT"
    by (simp add: ideal_platform_def cast_policy_def isFloatingType_def)
  have h2: "realloc_ok ideal_platform"
    by (simp add: realloc_ok_def ideal_platform_def)
  have h3: "wf_tensor ?out"
    by (simp add: wf_tensor_def numel_def)
  have h4: "scalar_type ?out = IntT" by simp
  have h5: "resize_tensor ideal_platform ?out [3] =
              Some \<lparr>sizes = [3], scalar_type = IntT, data = replicate 3 (IntV 0)\<rparr>"
    by (simp add: resize_tensor_def ideal_platform_def numel_def)
  show ?thesis
    using h1 h2 fmod_Tensor_out_int_example [OF h1 h2 h3 h4 h5] by simp
qed

subsection \<open>The reference platform's remainder\<close>

lemma floor_rat_numeral: "\<lfloor>(numeral u / numeral v :: rat)\<rfloor> = numeral u div numeral v"
  by (metis floor_divide_of_int_eq of_int_numeral)

lemma ideal_fmod_examples:
  "ideal_fmod (Fin (11 / 2)) (Fin 2) = Fin (3 / 2)"
  "ideal_fmod (Fin 7) (Fin 2) = Fin 1"
  "ideal_fmod (Fin (- 3)) (Fin 2) = Fin (- 1)"
  "ideal_fmod x (Fin 0) = NaN"
  by (simp_all add: ideal_fmod_def ideal_trunc_def ceiling_def floor_rat_numeral
      split: ideal_float.split)

subsection \<open>A zero divisor, by common type\<close>

lemma promoteTypes_Bool: "promoteTypes x y = Bool \<Longrightarrow> x = Bool \<and> y = Bool"
  by (cases x; cases y; simp add: promoteTypes_def isFloatingType_def)

lemma fmod_Tensor_out_bool_common:
  assumes "resize_to_broadcast_target_size P a b out = Inr out1"
    and "canCast P (promoteTypes (scalar_type a) (scalar_type b)) (scalar_type out)"
    and "promoteTypes (scalar_type a) (scalar_type b) = Bool"
  shows "fmod_Tensor_out P a b out = Inl (UnsupportedType, out1)"
proof -
  have t: "scalar_type a = Bool" "scalar_type b = Bool"
    using promoteTypes_Bool [OF assms(3)] by simp_all
  have o: "scalar_type out1 = scalar_type out"
    using assms(1) by (simp add: resize_to_broadcast_Inr)
  show ?thesis
    using assms t o
    by (simp add: fmod_Tensor_out_def Let_def REAL_TYPES_def REAL_TYPES_AND_Bool_def)
qed

lemma fmod_Scalar_out_bool_common:
  assumes "resize_tensor P out (sizes a) = Some out2"
    and "canCast P (promote_type_with_scalar (scalar_type a) s) (scalar_type out)"
    and "promote_type_with_scalar (scalar_type a) s = Bool"
  shows "fmod_Scalar_out P a s out = Inl (UnsupportedType, out2)"
proof -
  have t: "scalar_type a = Bool"
    using promoteTypes_Bool [of "scalar_type a" "get_scalar_dtype s"] assms(3)
    by (simp add: promote_type_with_scalar_def)
  have o: "scalar_type out2 = scalar_type out"
    using assms(1) by (simp add: resize_tensor_Some)
  show ?thesis
    using assms t o
    by (simp add: fmod_Scalar_out_def Let_def REAL_TYPES_def REAL_TYPES_AND_Bool_def
        SCALAR_OBJ_TYPES_get_scalar_dtype)
qed

text \<open>
  C1, as the claim states it, fails: with two boolean inputs the common type is boolean,
  which \<open>isIntegralType(common_type, true)\<close> counts as integral, but the call fails at
  the compute-type switch with \<open>UnsupportedType\<close> before any divisor is looked at.
\<close>

theorem all_bool_zero_divisor_counterexample:
  "isIntegralType (promoteTypes Bool Bool) True \<and>
   elem_is_zero ideal_platform (BoolV False) \<and>
   canCast ideal_platform (promoteTypes Bool Bool) IntT \<and>
   fmod_Tensor_out ideal_platform
     \<lparr>sizes = [2], scalar_type = Bool, data = [BoolV True, BoolV True]\<rparr>
     \<lparr>sizes = [2], scalar_type = Bool, data = [BoolV False, BoolV False]\<rparr>
     \<lparr>sizes = [2], scalar_type = IntT, data = [IntV 9, IntV 9]\<rparr>
   = Inl (UnsupportedType, \<lparr>sizes = [2], scalar_type = IntT, data = [IntV 9, IntV 9]\<rparr>)"
  by (simp add: eval_defs)

text \<open>
  C1, amended: the statements are about calls whose resize and cast check have passed.
  With a boolean common type the call fails with \<open>UnsupportedType\<close> at the
  compute-type switch, whatever the divisor, in both entry points. With a non-boolean
  integral common type, \<open>fmod_Tensor_out\<close> (with an output type the switch covers)
  aborts with \<open>DomainViolation\<close> when some output position reads a zero divisor, and
  \<open>fmod_Scalar_out\<close> aborts with \<open>DomainViolation\<close> when the scalar is zero. With
  the common type \<open>Float\<close> or \<open>Double\<close> and input and output types the switches
  cover (and a well-formed output, on a platform whose allocator returns buffers of the
  requested length), neither entry point looks at the divisor: the call returns, and every output
  element is the platform's \<open>std::fmod\<close> of the two operands cast to the common type,
  cast to the output type. In the \<open>UnsupportedType\<close> failures and in the scalar
  \<open>DomainViolation\<close> failure the output is what the resize left.
\<close>

theorem zero_divisor_by_common_type:
  "(resize_to_broadcast_target_size P a b out = Inr out1 \<and>
    canCast P (promoteTypes (scalar_type a) (scalar_type b)) (scalar_type out) \<and>
    REAL_TYPES (scalar_type out) \<and>
    isIntegralType (promoteTypes (scalar_type a) (scalar_type b)) False \<and>
    (\<exists>i<numel (sizes out1). elem_is_zero P (operand_elem b (sizes out1) i))
    \<longrightarrow> (\<exists>out'. fmod_Tensor_out P a b out = Inl (DomainViolation, out'))) \<and>
   (resize_tensor P out (sizes a) = Some out2 \<and>
    canCast P (promote_type_with_scalar (scalar_type a) s) (scalar_type out) \<and>
    isIntegralType (promote_type_with_scalar (scalar_type a) s) False \<and>
    elem_is_zero P (extract_scalar s)
    \<longrightarrow> fmod_Scalar_out P a s out = Inl (DomainViolation, out2)) \<and>
   (realloc_ok P \<and> wf_tensor out \<and>
    resize_to_broadcast_target_size P a b out = Inr out1 \<and>
    canCast P (promoteTypes (scalar_type a) (scalar_type b)) (scalar_type out) \<and>
    REAL_TYPES_AND_Bool (scalar_type a) \<and> REAL_TYPES_AND_Bool (scalar_type b) \<and>
    REAL_TYPES (scalar_type out) \<and>
    REAL_TYPES (promoteTypes (scalar_type a) (scalar_type b)) \<and>
    isFloatingType (promoteTypes (scalar_type a) (scalar_type b))
    \<longrightarrow> fmod_Tensor_out P a b out =
          Inr (out1\<lparr>data :=
            map (\<lambda>i. static_cast P (promoteTypes (scalar_type a) (scalar_type b)) (scalar_type out)
                       (std_fmod P (promoteTypes (scalar_type a) (scalar_type b))
                          (static_cast P (scalar_type a)
                             (promoteTypes (scalar_type a) (scalar_type b))
                             (operand_elem a (sizes out1) i))
                          (static_cast P (scalar_type b)
                             (promoteTypes (scalar_type a) (scalar_type b))
                             (operand_elem b (sizes out1) i))))
              [0..<numel (sizes out1)]\<rparr>)) \<and>
   (realloc_ok P \<and> wf_tensor out \<and>
    resize_tensor P out (sizes a) = Some out2 \<and>
    canCast P (promote_type_with_scalar (scalar_type a) s) (scalar_type out) \<and>
    REAL_TYPES_AND_Bool (scalar_type a) \<and>
    REAL_TYPES (scalar_type out) \<and>
    REAL_TYPES (promote_type_with_scalar (scalar_type a) s) \<and>
    isFloatingType (promote_type_with_scalar (scalar_type a) s)
    \<longrightarrow> fmod_Scalar_out P a s out =
          Inr (out2\<lparr>data :=
            map (\<lambda>i. static_cast P (promote_type_with_scalar (scalar_type a) s) (scalar_type out)
                       (std_fmod P (promote_type_with_scalar (scalar_type a) s)
                          (static_cast P (scalar_type a)
                             (promote_type_with_scalar (scalar_type a) s) (data a ! i))
                          (static_cast P (get_scalar_dtype s)
                             (promote_type_with_scalar (scalar_type a) s) (extract_scalar s))))
              [0..<numel (sizes a)]\<rparr>)) \<and>
   (resize_to_broadcast_target_size P a b out = Inr out1 \<and>
    canCast P (promoteTypes (scalar_type a) (scalar_type b)) (scalar_type out) \<and>
    promoteTypes (scalar_type a) (scalar_type b) = Bool
    \<longrightarrow> fmod_Tensor_out P a b out = Inl (UnsupportedType, out1)) \<and>
   (resize_tensor P out (sizes a) = Some out2 \<and>
    canCast P (promote_type_with_scalar (scalar_type a) s) (scalar_type out) \<and>
    promote_type_with_scalar (scalar_type a) s = Bool
    \<longrightarrow> fmod_Scalar_out P a s out = Inl (UnsupportedType, out2))"
proof (intro conjI impI, goal_cases)
  case 1
  then have r: "resize_to_broadcast_target_size P a b out = Inr out1"
    and c: "canCast P (promoteTypes (scalar_type a) (scalar_type b)) (scalar_type out)"
    and o: "REAL_TYPES (scalar_type out)"
    and t: "isIntegralType (promoteTypes (scalar_type a) (scalar_type b)) False"
    and z: "\<exists>i<numel (sizes out1). elem_is_zero P (operand_elem b (sizes out1) i)"
    by simp_all
  note p = promoteTypes_integral [OF t]
  show ?case
    using r c p [THEN conjunct1] p [THEN conjunct2, THEN conjunct1]
      p [THEN conjunct2, THEN conjunct2, THEN conjunct1] o
      p [THEN conjunct2, THEN conjunct2, THEN conjunct2] z
    by (rule fmod_Tensor_out_zero)
next
  case 2
  then have r: "resize_tensor P out (sizes a) = Some out2"
    and c: "canCast P (promote_type_with_scalar (scalar_type a) s) (scalar_type out)"
    and t: "isIntegralType (promoteTypes (scalar_type a) (get_scalar_dtype s)) False"
    and z: "elem_is_zero P (extract_scalar s)"
    by (simp_all add: promote_type_with_scalar_def)
  note p = promoteTypes_integral [OF t]
  show ?case
    using r c p z
    by (intro fmod_Scalar_out_zero) (simp_all add: promote_type_with_scalar_def)
next
  case 3
  then have wf: "wf_tensor out1"
    using resize_to_broadcast_wf by blast
  from 3 have nz: "\<forall>i<numel (sizes out1).
           \<not> (isIntegralType (promoteTypes (scalar_type a) (scalar_type b)) True \<and>
              elem_is_zero P (operand_elem b (sizes out1) i))"
    by (simp add: floating_not_integral)
  show ?case
    using fmod_Tensor_out_returns [OF _ wf _ _ _ _ _ nz] 3
    by (simp add: fmod_value_def Let_def)
next
  case 4
  then have wf: "wf_tensor out2"
    using resize_tensor_wf by blast
  from 4 have nz: "\<not> (isIntegralType (promote_type_with_scalar (scalar_type a) s) True \<and>
            elem_is_zero P (extract_scalar s))"
    by (simp add: floating_not_integral)
  show ?case
    using fmod_Scalar_out_returns [OF _ wf _ _ _ _ nz] 4
    by (simp add: fmod_value_def Let_def)
next
  case 5
  then show ?case
    by (elim conjE) (rule fmod_Tensor_out_bool_common)
next
  case 6
  then show ?case
    by (elim conjE) (rule fmod_Scalar_out_bool_common)
qed


theorem zero_divisor_by_common_type_witness:
  "(\<exists>out'. fmod_Tensor_out ideal_platform
      \<lparr>sizes = [3], scalar_type = IntT, data = [IntV 5, IntV 7, IntV 8]\<rparr>
      \<lparr>sizes = [3], scalar_type = IntT, data = [IntV 2, IntV 0, IntV 3]\<rparr>
      \<lparr>sizes = [3], scalar_type = IntT, data = [IntV 9, IntV 9, IntV 9]\<rparr>
    = Inl (DomainViolation, out')) \<and>
   fmod_Scalar_out ideal_platform
      \<lparr>sizes = [3], scalar_type = IntT, data = [IntV 5, IntV 7, IntV 8]\<rparr>
      (IntS 0)
      \<lparr>sizes = [3], scalar_type = IntT, data = [IntV 9, IntV 9, IntV 9]\<rparr>
    = Inl (DomainViolation, \<lparr>sizes = [3], scalar_type = IntT, data = [IntV 9, IntV 9, IntV 9]\<rparr>) \<and>
   fmod_Tensor_out ideal_platform
      \<lparr>sizes = [3], scalar_type = Float, data = [FloatV (Fin (11 / 2)), FloatV (Fin 7), FloatV (Fin (- 3))]\<rparr>
      \<lparr>sizes = [3], scalar_type = Float, data = [FloatV (Fin 0), FloatV (Fin 2), FloatV (Fin 2)]\<rparr>
      \<lparr>sizes = [3], scalar_type = Float, data = [FloatV (Fin 9), FloatV (Fin 9), FloatV (Fin 9)]\<rparr>
    = Inr \<lparr>sizes = [3], scalar_type = Float, data = [FloatV NaN, FloatV (Fin 1), FloatV (Fin (- 1))]\<rparr> \<and>
   fmod_Scalar_out ideal_platform
      \<lparr>sizes = [3], scalar_type = Float, data = [FloatV (Fin (11 / 2)), FloatV (Fin 7), FloatV (Fin (- 3))]\<rparr>
      (FloatS (Fin 0))
      \<lparr>sizes = [3], scalar_type = Float, data = [FloatV (Fin 9), FloatV (Fin 9), FloatV (Fin 9)]\<rparr>
    = Inr \<lparr>sizes = [3], scalar_type = Float, data = [FloatV NaN, FloatV NaN, FloatV NaN]\<rparr> \<and>
   fmod_Tensor_out ideal_platform
      \<lparr>sizes = [2], scalar_type = Bool, data = [BoolV True, BoolV True]\<rparr>
      \<lparr>sizes = [2], scalar_type = Bool, data = [BoolV False, BoolV False]\<rparr>
      \<lparr>sizes = [2], scalar_type = IntT, data = [IntV 9, IntV 9]\<rparr>
    = Inl (UnsupportedType, \<lparr>sizes = [2], scalar_type = IntT, data = [IntV 9, IntV 9]\<rparr>) \<and>
   fmod_Scalar_out ideal_platform
      \<lparr>sizes = [2], scalar_type = Bool, data = [BoolV True, BoolV True]\<rparr>
      (BoolS False)
      \<lparr>sizes = [2], scalar_type = IntT, data = [IntV 9, IntV 9]\<rparr>
    = Inl (UnsupportedType, \<lparr>sizes = [2], scalar_type = IntT, data = [IntV 9, IntV 9]\<rparr>)"
proof -
  let ?P = "ideal_platform"
  let ?a = "\<lparr>sizes = [3], scalar_type = IntT, data = [IntV 5, IntV 7, IntV 8 :: ideal_float elem]\<rparr>"
  let ?b = "\<lparr>sizes = [3], scalar_type = IntT, data = [IntV 2, IntV 0, IntV 3 :: ideal_float elem]\<rparr>"
  let ?o = "\<lparr>sizes = [3], scalar_type = IntT, data = [IntV 9, IntV 9, IntV 9 :: ideal_float elem]\<rparr>"
  let ?fa = "\<lparr>sizes = [3], scalar_type = Float, data = [FloatV (Fin (11 / 2)), FloatV (Fin 7), FloatV (Fin (- 3))]\<rparr>"
  let ?fb = "\<lparr>sizes = [3], scalar_type = Float, data = [FloatV (Fin 0), FloatV (Fin 2), FloatV (Fin 2)]\<rparr>"
  let ?fo = "\<lparr>sizes = [3], scalar_type = Float, data = [FloatV (Fin 9), FloatV (Fin 9), FloatV (Fin 9)]\<rparr>"
  note types = promoteTypes_def promote_type_with_scalar_def get_scalar_dtype_def
    isFloatingType_def isIntegralType_def REAL_TYPES_def REAL_TYPES_AND_Bool_def
    ideal_platform_def cast_policy_def
  have ok: "realloc_ok ?P"
    by (simp add: realloc_ok_def ideal_platform_def)
  have wf: "wf_tensor ?fo"
    by (simp add: wf_tensor_def numel_def)
  have r1: "resize_to_broadcast_target_size ?P ?a ?b ?o = Inr ?o"
    by (simp add: resize_to_broadcast_target_size_def broadcastShape_def resize_tensor_def)
  have r2: "resize_tensor ?P ?o (sizes ?a) = Some ?o"
    by (simp add: resize_tensor_def)
  have r3: "resize_to_broadcast_target_size ?P ?fa ?fb ?fo = Inr ?fo"
    by (simp add: resize_to_broadcast_target_size_def broadcastShape_def resize_tensor_def)
  have r4: "resize_tensor ?P ?fo (sizes ?fa) = Some ?fo"
    by (simp add: resize_tensor_def)
  have z1: "\<exists>i<numel (sizes ?o). elem_is_zero ?P (operand_elem ?b (sizes ?o) i)"
  proof -
    have "Suc 0 < numel (sizes ?o) \<and> elem_is_zero ?P (operand_elem ?b (sizes ?o) (Suc 0))"
      by (simp add: numel_def elem_is_zero_def operand_elem_def operand_index_def)
    then show ?thesis by blast
  qed
  have z2: "elem_is_zero ?P (extract_scalar (IntS 0))"
    by (simp add: elem_is_zero_def extract_scalar_def)
  have idx: "[0..<numel [3]] = [0, Suc 0, Suc (Suc 0)]"
    by (simp add: numel_def upt_conv_Cons)
  have A: "\<exists>out'. fmod_Tensor_out ?P ?a ?b ?o = Inl (DomainViolation, out')"
    using zero_divisor_by_common_type [of ?P ?a ?b ?o ?o ?o "IntS 0", THEN conjunct1] r1 z1
    by (simp add: types)
  have B: "fmod_Scalar_out ?P ?a (IntS 0) ?o = Inl (DomainViolation, ?o)"
    using zero_divisor_by_common_type [of ?P ?a ?b ?o ?o ?o "IntS 0", THEN conjunct2, THEN conjunct1] r2 z2
    by (simp add: types)
  have C: "fmod_Tensor_out ?P ?fa ?fb ?fo =
      Inr \<lparr>sizes = [3], scalar_type = Float, data = [FloatV NaN, FloatV (Fin 1), FloatV (Fin (- 1))]\<rparr>"
    using zero_divisor_by_common_type [of ?P ?fa ?fb ?fo ?fo ?fo "FloatS (Fin 0)", THEN conjunct2, THEN conjunct2,
        THEN conjunct1] ok wf r3
    by (simp add: types idx static_cast_def std_fmod_def operand_elem_def operand_index_def
        ideal_fmod_examples)
  have D: "fmod_Scalar_out ?P ?fa (FloatS (Fin 0)) ?fo =
      Inr \<lparr>sizes = [3], scalar_type = Float, data = [FloatV NaN, FloatV NaN, FloatV NaN]\<rparr>"
    using zero_divisor_by_common_type [of ?P ?fa ?fb ?fo ?fo ?fo "FloatS (Fin 0)", THEN conjunct2, THEN conjunct2,
        THEN conjunct2, THEN conjunct1] ok wf r4
    by (simp add: types idx static_cast_def std_fmod_def extract_scalar_def
        ideal_fmod_examples)
  let ?ba = "\<lparr>sizes = [2], scalar_type = Bool, data = [BoolV True, BoolV True :: ideal_float elem]\<rparr>"
  let ?bb = "\<lparr>sizes = [2], scalar_type = Bool, data = [BoolV False, BoolV False :: ideal_float elem]\<rparr>"
  let ?bo = "\<lparr>sizes = [2], scalar_type = IntT, data = [IntV 9, IntV 9 :: ideal_float elem]\<rparr>"
  let ?bs = "BoolS False :: ideal_float Scalar"
  have r5: "resize_to_broadcast_target_size ?P ?ba ?bb ?bo = Inr ?bo"
    by (simp add: resize_to_broadcast_target_size_def broadcastShape_def resize_tensor_def)
  have r6: "resize_tensor ?P ?bo (sizes ?ba) = Some ?bo"
    by (simp add: resize_tensor_def)
  have c5: "canCast ?P (promoteTypes (scalar_type ?ba) (scalar_type ?bb)) (scalar_type ?bo)"
    "promoteTypes (scalar_type ?ba) (scalar_type ?bb) = Bool"
    by (simp_all add: types)
  have c6: "canCast ?P (promote_type_with_scalar (scalar_type ?ba) ?bs) (scalar_type ?bo)"
    "promote_type_with_scalar (scalar_type ?ba) ?bs = Bool"
    by (simp_all add: types)
  note bool = zero_divisor_by_common_type [of ?P ?ba ?bb ?bo ?bo ?bo ?bs]
  have E: "fmod_Tensor_out ?P ?ba ?bb ?bo = Inl (UnsupportedType, ?bo)"
    using bool [THEN conjunct2, THEN conjunct2, THEN conjunct2, THEN conjunct2, THEN conjunct1]
      r5 c5 by blast
  have F: "fmod_Scalar_out ?P ?ba ?bs ?bo = Inl (UnsupportedType, ?bo)"
    using bool [THEN conjunct2, THEN conjunct2, THEN conjunct2, THEN conjunct2, THEN conjunct2]
      r6 c6 by blast
  show ?thesis
    by (intro conjI A B C D E F)
qed

subsection \<open>The floating-point example\<close>

text \<open>
  C7: for the \<open>Float\<close> tensor \<open>a = [x]\<close> and the integer scalar 2,
  \<open>promote_type_with_scalar\<close> gives \<open>Float\<close>, the tensor's type, and
  \<open>fmod_Scalar_out\<close> returns with the single element \<open>fmodf(x, (float) 2)\<close> in a
  \<open>Float\<close> output. The witness runs it at \<open>x = 5.5\<close> on the reference platform, whose
  arithmetic is exact on these values: the output is \<open>[1.5]\<close>.
\<close>

theorem fmod_Scalar_out_float_example:
  fixes P :: "'f platform"
  assumes "canCast P Float Float" and "realloc_ok P" and "wf_tensor out"
    and "scalar_type out = Float" and "resize_tensor P out [1] = Some out1"
  shows "promote_type_with_scalar Float (IntS 2 :: 'f Scalar) = Float \<and>
         fmod_Scalar_out P \<lparr>sizes = [1], scalar_type = Float, data = [FloatV x]\<rparr> (IntS 2) out
           = Inr (out1\<lparr>data := [FloatV (fp_fmod P Float x (fp_of_int P Float 2))]\<rparr>)"
proof
  show ct: "promote_type_with_scalar Float (IntS 2 :: 'f Scalar) = Float"
    by (simp add: promote_type_with_scalar_def get_scalar_dtype_def promoteTypes_def
        isFloatingType_def)
  let ?a = "\<lparr>sizes = [1], scalar_type = Float, data = [FloatV x]\<rparr>"
  have r: "resize_tensor P out (sizes ?a) = Some out1"
    using assms(5) by simp
  have wf: "wf_tensor out1"
    using assms(2,3,5) by (rule resize_tensor_wf)
  have idx: "[0..<numel [Suc 0]] = [0]"
    by (simp add: numel_def)
  let ?s = "IntS 2 :: 'f Scalar"
  have "fmod_Scalar_out P ?a ?s out =
           Inr (out1\<lparr>data :=
             map (\<lambda>i. fmod_value P (promote_type_with_scalar (scalar_type ?a) ?s)
                         (scalar_type ?a) (get_scalar_dtype ?s) (scalar_type out)
                         (data ?a ! i) (extract_scalar ?s))
               [0..<numel (sizes ?a)]\<rparr>)"
    using r wf
    by (rule fmod_Scalar_out_returns)
       (simp_all add: ct assms REAL_TYPES_def REAL_TYPES_AND_Bool_def isIntegralType_def)
  then show "fmod_Scalar_out P ?a (IntS 2) out
           = Inr (out1\<lparr>data := [FloatV (fp_fmod P Float x (fp_of_int P Float 2))]\<rparr>)"
    by (simp add: ct assms(4) idx fmod_value_def static_cast_def std_fmod_def
        isFloatingType_def extract_scalar_def get_scalar_dtype_def)
qed

theorem fmod_Scalar_out_float_example_witness:
  "canCast ideal_platform Float Float \<and> realloc_ok ideal_platform \<and>
   promote_type_with_scalar Float (IntS 2 :: ideal_float Scalar) = Float \<and>
   fmod_Scalar_out ideal_platform
     \<lparr>sizes = [1], scalar_type = Float, data = [FloatV (Fin (11 / 2))]\<rparr>
     (IntS 2)
     \<lparr>sizes = [1], scalar_type = Float, data = [FloatV (Fin 0)]\<rparr>
   = Inr \<lparr>sizes = [1], scalar_type = Float, data = [FloatV (Fin (3 / 2))]\<rparr>"
proof -
  let ?out = "\<lparr>sizes = [1], scalar_type = Float, data = [FloatV (Fin 0)]\<rparr>"
  have h1: "canCast ideal_platform Float Float"
    by (simp add: ideal_platform_def cast_policy_def isIntegralType_def)
  have h2: "realloc_ok ideal_platform"
    by (simp add: realloc_ok_def ideal_platform_def)
  have h3: "wf_tensor ?out"
    by (simp add: wf_tensor_def numel_def)
  have h4: "scalar_type ?out = Float" by simp
  have h5: "resize_tensor ideal_platform ?out [1] = Some ?out"
    by (simp add: resize_tensor_def)
  have f: "fp_fmod ideal_platform Float (Fin (11 / 2)) (fp_of_int ideal_platform Float 2) = Fin (3 / 2)"
    using ideal_fmod_examples(1) by (simp add: ideal_platform_def)
  show ?thesis
    using h1 h2 fmod_Scalar_out_float_example [OF h1 h2 h3 h4 h5, of "Fin (11 / 2)"] by (simp add: f)
qed

subsection \<open>Two runs\<close>

lemma binary_loop_Inr:
  "binary_loop fn a b is out = Inr r \<Longrightarrow>
   \<forall>i\<in>set is. \<exists>v. fn (operand_elem a (sizes out) i) (operand_elem b (sizes out) i) = Inr v"
proof (induction "is" arbitrary: out)
  case Nil
  then show ?case by simp
next
  case (Cons i "is")
  show ?case
  proof (cases "fn (operand_elem a (sizes out) i) (operand_elem b (sizes out) i)")
    case (Inl e)
    with Cons.prems show ?thesis by simp
  next
    case (Inr v)
    with Cons.prems have "binary_loop fn a b is (out\<lparr>data := (data out)[i := v]\<rparr>) = Inr r"
      by simp
    from Cons.IH [OF this] Inr show ?thesis by simp
  qed
qed

lemma fmod_elementwise_fn_Inr:
  "fmod_elementwise_fn P ct ta tb ot x y = Inr v \<Longrightarrow>
   \<not> (isIntegralType ct True \<and> elem_is_zero P y)"
  by (auto simp: fmod_elementwise_fn_def split: if_splits)

lemma fmod_Tensor_out_Inr:
  assumes "fmod_Tensor_out P a b out = Inr r" and "realloc_ok P" and "wf_tensor out"
  shows "\<exists>out1. resize_to_broadcast_target_size P a b out = Inr out1 \<and> wf_tensor out1 \<and>
           canCast P (promoteTypes (scalar_type a) (scalar_type b)) (scalar_type out) \<and>
           REAL_TYPES_AND_Bool (scalar_type a) \<and> REAL_TYPES_AND_Bool (scalar_type b) \<and>
           REAL_TYPES (promoteTypes (scalar_type a) (scalar_type b)) \<and>
           REAL_TYPES (scalar_type out) \<and>
           (\<forall>i<numel (sizes out1).
              \<not> (isIntegralType (promoteTypes (scalar_type a) (scalar_type b)) True \<and>
                 elem_is_zero P (operand_elem b (sizes out1) i))) \<and>
           r = out1\<lparr>data :=
                 map (\<lambda>i. fmod_value P (promoteTypes (scalar_type a) (scalar_type b))
                             (scalar_type a) (scalar_type b) (scalar_type out)
                             (operand_elem a (sizes out1) i) (operand_elem b (sizes out1) i))
                   [0..<numel (sizes out1)]\<rparr>"
proof (cases "resize_to_broadcast_target_size P a b out")
  case (Inl e)
  with assms(1) show ?thesis by (simp add: fmod_Tensor_out_def)
next
  case (Inr out1)
  have t: "scalar_type out1 = scalar_type out"
    using Inr by (simp add: resize_to_broadcast_Inr)
  have wf: "wf_tensor out1"
    using assms(2,3) Inr by (rule resize_to_broadcast_wf)
  let ?ct = "promoteTypes (scalar_type a) (scalar_type b)"
  have c1: "canCast P ?ct (scalar_type out)"
    using assms(1) Inr t by (auto simp: fmod_Tensor_out_def Let_def split: if_splits)
  have c2: "REAL_TYPES_AND_Bool (scalar_type a)"
    using assms(1) Inr t by (auto simp: fmod_Tensor_out_def Let_def split: if_splits)
  have c3: "REAL_TYPES_AND_Bool (scalar_type b)"
    using assms(1) Inr t by (auto simp: fmod_Tensor_out_def Let_def split: if_splits)
  have c4: "REAL_TYPES ?ct"
    using assms(1) Inr t by (auto simp: fmod_Tensor_out_def Let_def split: if_splits)
  have c5: "REAL_TYPES (scalar_type out)"
    using assms(1) Inr t by (auto simp: fmod_Tensor_out_def Let_def split: if_splits)
  have loop: "binary_loop (fmod_elementwise_fn P ?ct (scalar_type a) (scalar_type b) (scalar_type out))
                a b [0..<numel (sizes out1)] out1 = Inr r"
    using fmod_Tensor_out_checks [OF Inr c1 c2 c3 c4 c5] assms(1) by simp
  have nz: "\<forall>i<numel (sizes out1).
              \<not> (isIntegralType ?ct True \<and> elem_is_zero P (operand_elem b (sizes out1) i))"
    using binary_loop_Inr [OF loop] fmod_elementwise_fn_Inr by fastforce
  have "r = out1\<lparr>data :=
                 map (\<lambda>i. fmod_value P ?ct (scalar_type a) (scalar_type b) (scalar_type out)
                             (operand_elem a (sizes out1) i) (operand_elem b (sizes out1) i))
                   [0..<numel (sizes out1)]\<rparr>"
    using fmod_Tensor_out_returns [OF Inr wf c1 c2 c3 c4 c5 nz] assms(1) by simp
  with Inr wf c1 c2 c3 c4 c5 nz show ?thesis by blast
qed

lemma fmod_Scalar_out_Inr:
  assumes "fmod_Scalar_out P a s out = Inr r" and "realloc_ok P" and "wf_tensor out"
  shows "\<exists>out1. resize_tensor P out (sizes a) = Some out1 \<and> wf_tensor out1 \<and>
           canCast P (promote_type_with_scalar (scalar_type a) s) (scalar_type out) \<and>
           REAL_TYPES_AND_Bool (scalar_type a) \<and>
           REAL_TYPES (promote_type_with_scalar (scalar_type a) s) \<and>
           REAL_TYPES (scalar_type out) \<and>
           \<not> (isIntegralType (promote_type_with_scalar (scalar_type a) s) True \<and>
              elem_is_zero P (extract_scalar s)) \<and>
           r = out1\<lparr>data :=
                 map (\<lambda>i. fmod_value P (promote_type_with_scalar (scalar_type a) s)
                             (scalar_type a) (get_scalar_dtype s) (scalar_type out)
                             (data a ! i) (extract_scalar s))
                   [0..<numel (sizes a)]\<rparr>"
proof (cases "resize_tensor P out (sizes a)")
  case None
  with assms(1) show ?thesis by (simp add: fmod_Scalar_out_def)
next
  case (Some out1)
  have t: "scalar_type out1 = scalar_type out"
    using Some by (simp add: resize_tensor_Some)
  have wf: "wf_tensor out1"
    using assms(2,3) Some by (rule resize_tensor_wf)
  let ?ct = "promote_type_with_scalar (scalar_type a) s"
  have c1: "canCast P ?ct (scalar_type out)"
    using assms(1) Some t by (auto simp: fmod_Scalar_out_def Let_def split: if_splits)
  have c2: "REAL_TYPES_AND_Bool (scalar_type a)"
    using assms(1) Some t by (auto simp: fmod_Scalar_out_def Let_def split: if_splits)
  have c4: "REAL_TYPES ?ct"
    using assms(1) Some t by (auto simp: fmod_Scalar_out_def Let_def split: if_splits)
  have c5: "REAL_TYPES (scalar_type out)"
    using assms(1) Some t by (auto simp: fmod_Scalar_out_def Let_def split: if_splits)
  have nz: "\<not> (isIntegralType ?ct True \<and> elem_is_zero P (extract_scalar s))"
    using assms(1) Some t by (auto simp: fmod_Scalar_out_def Let_def split: if_splits)
  have "r = out1\<lparr>data :=
                 map (\<lambda>i. fmod_value P ?ct (scalar_type a) (get_scalar_dtype s) (scalar_type out)
                             (data a ! i) (extract_scalar s))
                   [0..<numel (sizes a)]\<rparr>"
    using fmod_Scalar_out_returns [OF Some wf c1 c2 c4 c5 nz] assms(1) by simp
  with Some wf c1 c2 c4 c5 nz show ?thesis by blast
qed

lemma fmod_Tensor_out_same_result:
  assumes "realloc_ok P" and "wf_tensor out" and "wf_tensor out'"
    and "scalar_type out = scalar_type out'"
    and "fmod_Tensor_out P a b out = Inr r" and "fmod_Tensor_out P a b out' = Inr r'"
  shows "r = r'"
proof -
  from fmod_Tensor_out_Inr [OF assms(5,1,2)] obtain out1 where
    1: "resize_to_broadcast_target_size P a b out = Inr out1"
    and r: "r = out1\<lparr>data :=
                 map (\<lambda>i. fmod_value P (promoteTypes (scalar_type a) (scalar_type b))
                             (scalar_type a) (scalar_type b) (scalar_type out)
                             (operand_elem a (sizes out1) i) (operand_elem b (sizes out1) i))
                   [0..<numel (sizes out1)]\<rparr>"
    by blast
  from fmod_Tensor_out_Inr [OF assms(6,1,3)] obtain out2 where
    2: "resize_to_broadcast_target_size P a b out' = Inr out2"
    and r': "r' = out2\<lparr>data :=
                 map (\<lambda>i. fmod_value P (promoteTypes (scalar_type a) (scalar_type b))
                             (scalar_type a) (scalar_type b) (scalar_type out')
                             (operand_elem a (sizes out2) i) (operand_elem b (sizes out2) i))
                   [0..<numel (sizes out2)]\<rparr>"
    by blast
  have s: "sizes out1 = sizes out2"
    using resize_to_broadcast_Inr [OF 1] resize_to_broadcast_Inr [OF 2] by simp
  have t: "scalar_type out1 = scalar_type out2"
    using resize_to_broadcast_Inr [OF 1] resize_to_broadcast_Inr [OF 2] assms(4) by simp
  show ?thesis
    unfolding r r' using s t assms(4) by (intro Tensor.equality) simp_all
qed

lemma fmod_Tensor_out_rerun:
  assumes "realloc_ok P" and "wf_tensor out" and "fmod_Tensor_out P a b out = Inr r"
  shows "fmod_Tensor_out P a b r = Inr r"
proof -
  let ?ct = "promoteTypes (scalar_type a) (scalar_type b)"
  from fmod_Tensor_out_Inr [OF assms(3,1,2)] obtain out1 where
    1: "resize_to_broadcast_target_size P a b out = Inr out1"
    and c: "canCast P ?ct (scalar_type out)" "REAL_TYPES_AND_Bool (scalar_type a)"
      "REAL_TYPES_AND_Bool (scalar_type b)" "REAL_TYPES ?ct" "REAL_TYPES (scalar_type out)"
    and nz: "\<forall>i<numel (sizes out1).
              \<not> (isIntegralType ?ct True \<and> elem_is_zero P (operand_elem b (sizes out1) i))"
    and r: "r = out1\<lparr>data :=
                 map (\<lambda>i. fmod_value P ?ct (scalar_type a) (scalar_type b) (scalar_type out)
                             (operand_elem a (sizes out1) i) (operand_elem b (sizes out1) i))
                   [0..<numel (sizes out1)]\<rparr>"
    by blast
  have s: "sizes r = sizes out1" and t: "scalar_type r = scalar_type out"
    using r resize_to_broadcast_Inr [OF 1] by simp_all
  have wf: "wf_tensor r"
    using r by (simp add: wf_tensor_def)
  have res: "resize_to_broadcast_target_size P a b r = Inr r"
    using resize_to_broadcast_Inr [OF 1] s
    by (simp add: resize_to_broadcast_target_size_def resize_tensor_def)
  have "fmod_Tensor_out P a b r =
          Inr (r\<lparr>data :=
             map (\<lambda>i. fmod_value P ?ct (scalar_type a) (scalar_type b) (scalar_type r)
                         (operand_elem a (sizes r) i) (operand_elem b (sizes r) i))
               [0..<numel (sizes r)]\<rparr>)"
    using res wf
    by (rule fmod_Tensor_out_returns) (use c nz s t in simp_all)
  also have "\<dots> = Inr r"
    unfolding s t by (simp add: r)
  finally show ?thesis .
qed

lemma fmod_Scalar_out_same_result:
  assumes "realloc_ok P" and "wf_tensor out" and "wf_tensor out'"
    and "scalar_type out = scalar_type out'"
    and "fmod_Scalar_out P a s out = Inr r" and "fmod_Scalar_out P a s out' = Inr r'"
  shows "r = r'"
proof -
  from fmod_Scalar_out_Inr [OF assms(5,1,2)] obtain out1 where
    1: "resize_tensor P out (sizes a) = Some out1"
    and r: "r = out1\<lparr>data :=
                 map (\<lambda>i. fmod_value P (promote_type_with_scalar (scalar_type a) s)
                             (scalar_type a) (get_scalar_dtype s) (scalar_type out)
                             (data a ! i) (extract_scalar s))
                   [0..<numel (sizes a)]\<rparr>"
    by blast
  from fmod_Scalar_out_Inr [OF assms(6,1,3)] obtain out2 where
    2: "resize_tensor P out' (sizes a) = Some out2"
    and r': "r' = out2\<lparr>data :=
                 map (\<lambda>i. fmod_value P (promote_type_with_scalar (scalar_type a) s)
                             (scalar_type a) (get_scalar_dtype s) (scalar_type out')
                             (data a ! i) (extract_scalar s))
                   [0..<numel (sizes a)]\<rparr>"
    by blast
  show ?thesis
    unfolding r r' using resize_tensor_Some [OF 1] resize_tensor_Some [OF 2] assms(4)
    by (intro Tensor.equality) simp_all
qed

lemma fmod_Scalar_out_rerun:
  assumes "realloc_ok P" and "wf_tensor out" and "fmod_Scalar_out P a s out = Inr r"
  shows "fmod_Scalar_out P a s r = Inr r"
proof -
  let ?ct = "promote_type_with_scalar (scalar_type a) s"
  from fmod_Scalar_out_Inr [OF assms(3,1,2)] obtain out1 where
    1: "resize_tensor P out (sizes a) = Some out1"
    and c: "canCast P ?ct (scalar_type out)" "REAL_TYPES_AND_Bool (scalar_type a)"
      "REAL_TYPES ?ct" "REAL_TYPES (scalar_type out)"
    and nz: "\<not> (isIntegralType ?ct True \<and> elem_is_zero P (extract_scalar s))"
    and r: "r = out1\<lparr>data :=
                 map (\<lambda>i. fmod_value P ?ct (scalar_type a) (get_scalar_dtype s) (scalar_type out)
                             (data a ! i) (extract_scalar s))
                   [0..<numel (sizes a)]\<rparr>"
    by blast
  have s: "sizes r = sizes a" and t: "scalar_type r = scalar_type out"
    using r resize_tensor_Some [OF 1] by simp_all
  have wf: "wf_tensor r"
    using r resize_tensor_Some [OF 1] by (simp add: wf_tensor_def)
  have res: "resize_tensor P r (sizes a) = Some r"
    using s by (simp add: resize_tensor_def)
  have "fmod_Scalar_out P a s r =
          Inr (r\<lparr>data :=
             map (\<lambda>i. fmod_value P ?ct (scalar_type a) (get_scalar_dtype s) (scalar_type r)
                         (data a ! i) (extract_scalar s))
               [0..<numel (sizes a)]\<rparr>)"
    using res wf
    by (rule fmod_Scalar_out_returns) (use c nz t in simp_all)
  also have "\<dots> = Inr r"
    unfolding t by (simp add: r)
  finally show ?thesis .
qed


text \<open>
  C8: two calls with the same inputs and with outputs of the same element type return
  the same output tensor, whatever shape and contents each output had before; and a call
  on the output of an earlier call with the same inputs returns that output unchanged.
  Both hold for \<open>fmod_Tensor_out\<close> and for \<open>fmod_Scalar_out\<close>, on every platform
  whose allocator returns buffers of the requested length.
\<close>

theorem fmod_two_runs_identical:
  assumes "realloc_ok P" and "wf_tensor out" and "wf_tensor out'"
    and "scalar_type out = scalar_type out'"
  shows "(fmod_Tensor_out P a b out = Inr r \<and> fmod_Tensor_out P a b out' = Inr r' \<longrightarrow> r = r') \<and>
         (fmod_Tensor_out P a b out = Inr r \<longrightarrow> fmod_Tensor_out P a b r = Inr r) \<and>
         (fmod_Scalar_out P a s out = Inr q \<and> fmod_Scalar_out P a s out' = Inr q' \<longrightarrow> q = q') \<and>
         (fmod_Scalar_out P a s out = Inr q \<longrightarrow> fmod_Scalar_out P a s q = Inr q)"
  using assms
  by (blast intro: fmod_Tensor_out_same_result fmod_Tensor_out_rerun
      fmod_Scalar_out_same_result fmod_Scalar_out_rerun)

theorem fmod_two_runs_identical_witness:
  "realloc_ok ideal_platform \<and>
   fmod_Tensor_out ideal_platform
     \<lparr>sizes = [3], scalar_type = IntT, data = [IntV 5, IntV 7, IntV (- 3)]\<rparr>
     \<lparr>sizes = [3], scalar_type = IntT, data = [IntV 2, IntV 2, IntV 2]\<rparr>
     \<lparr>sizes = [3], scalar_type = IntT, data = [IntV 9, IntV 9, IntV 9]\<rparr>
   = Inr \<lparr>sizes = [3], scalar_type = IntT, data = [IntV 1, IntV 1, IntV (- 1)]\<rparr> \<and>
   fmod_Tensor_out ideal_platform
     \<lparr>sizes = [3], scalar_type = IntT, data = [IntV 5, IntV 7, IntV (- 3)]\<rparr>
     \<lparr>sizes = [3], scalar_type = IntT, data = [IntV 2, IntV 2, IntV 2]\<rparr>
     \<lparr>sizes = [2], scalar_type = IntT, data = [IntV 4, IntV 4]\<rparr>
   = Inr \<lparr>sizes = [3], scalar_type = IntT, data = [IntV 1, IntV 1, IntV (- 1)]\<rparr> \<and>
   fmod_Tensor_out ideal_platform
     \<lparr>sizes = [3], scalar_type = IntT, data = [IntV 5, IntV 7, IntV (- 3)]\<rparr>
     \<lparr>sizes = [3], scalar_type = IntT, data = [IntV 2, IntV 2, IntV 2]\<rparr>
     \<lparr>sizes = [3], scalar_type = IntT, data = [IntV 1, IntV 1, IntV (- 1)]\<rparr>
   = Inr \<lparr>sizes = [3], scalar_type = IntT, data = [IntV 1, IntV 1, IntV (- 1)]\<rparr> \<and>
   fmod_Scalar_out ideal_platform
     \<lparr>sizes = [3], scalar_type = IntT, data = [IntV 5, IntV 7, IntV (- 3)]\<rparr>
     (IntS 2)
     \<lparr>sizes = [3], scalar_type = IntT, data = [IntV 9, IntV 9, IntV 9]\<rparr>
   = Inr \<lparr>sizes = [3], scalar_type = IntT, data = [IntV 1, IntV 1, IntV (- 1)]\<rparr> \<and>
   fmod_Scalar_out ideal_platform
     \<lparr>sizes = [3], scalar_type = IntT, data = [IntV 5, IntV 7, IntV (- 3)]\<rparr>
     (IntS 2)
     \<lparr>sizes = [3], scalar_type = IntT, data = [IntV 1, IntV 1, IntV (- 1)]\<rparr>
   = Inr \<lparr>sizes = [3], scalar_type = IntT, data = [IntV 1, IntV 1, IntV (- 1)]\<rparr>"
proof -
  let ?P = "ideal_platform"
  let ?a = "\<lparr>sizes = [3], scalar_type = IntT, data = [IntV 5, IntV 7, IntV (- 3) :: ideal_float elem]\<rparr>"
  let ?b = "\<lparr>sizes = [3], scalar_type = IntT, data = [IntV 2, IntV 2, IntV 2 :: ideal_float elem]\<rparr>"
  let ?o = "\<lparr>sizes = [3], scalar_type = IntT, data = [IntV 9, IntV 9, IntV 9 :: ideal_float elem]\<rparr>"
  let ?o' = "\<lparr>sizes = [2], scalar_type = IntT, data = [IntV 4, IntV 4 :: ideal_float elem]\<rparr>"
  let ?R = "\<lparr>sizes = [3], scalar_type = IntT, data = [IntV 1, IntV 1, IntV (- 1) :: ideal_float elem]\<rparr>"
  let ?s = "IntS 2 :: ideal_float Scalar"
  have ok: "realloc_ok ?P"
    by (simp add: realloc_ok_def ideal_platform_def)
  have wf: "wf_tensor ?o" "wf_tensor ?o'"
    by (simp_all add: wf_tensor_def numel_def)
  have ty: "scalar_type ?o = scalar_type ?o'" "scalar_type ?o = IntT" "scalar_type ?o' = IntT"
    by simp_all
  have c: "canCast ?P IntT IntT" "canCast ?P Long IntT"
    by (simp_all add: ideal_platform_def cast_policy_def isFloatingType_def)
  have r1: "resize_tensor ?P ?o [3] = Some ?o"
    by (simp add: resize_tensor_def)
  have r2: "resize_tensor ?P ?o' [3] =
              Some \<lparr>sizes = [3], scalar_type = IntT, data = replicate 3 (IntV 0)\<rparr>"
    by (simp add: resize_tensor_def ideal_platform_def numel_def)
  have E1: "fmod_Tensor_out ?P ?a ?b ?o = Inr ?R"
    using int_tensor_example [OF c(1) ok wf(1) ty(2) r1] by simp
  have E2: "fmod_Tensor_out ?P ?a ?b ?o' = Inr ?R"
    using int_tensor_example [OF c(1) ok wf(2) ty(3) r2] by simp
  have E3: "fmod_Scalar_out ?P ?a ?s ?o = Inr ?R"
    using int_scalar_example [OF c(2) ok wf(1) ty(2) r1] by simp
  note det = fmod_two_runs_identical [OF ok wf ty(1), of ?a ?b ?R ?R ?s ?R ?R]
  have E4: "fmod_Tensor_out ?P ?a ?b ?R = Inr ?R"
    using det [THEN conjunct2, THEN conjunct1] E1 by (rule mp)
  have E5: "fmod_Scalar_out ?P ?a ?s ?R = Inr ?R"
    using det [THEN conjunct2, THEN conjunct2, THEN conjunct2] E3 by (rule mp)
  show ?thesis
    by (intro conjI ok E1 E2 E3 E4 E5)
qed


subsection \<open>The output at a failed cast check, and the inputs\<close>

lemma put_out_update:
  "put_out ro (st[ro := t]) r = put_out ro st r"
  by (simp add: put_out_def split: sum.splits)

lemma binary_loop_store_separate:
  "ra \<noteq> ro \<Longrightarrow> rb \<noteq> ro \<Longrightarrow> ro < length st \<Longrightarrow>
   binary_loop_store fn ra rb ro is st =
     put_out ro st (binary_loop fn (st ! ra) (st ! rb) is (st ! ro))"
proof (induction "is" arbitrary: st)
  case Nil
  then show ?case by (simp add: put_out_def)
next
  case (Cons i "is")
  show ?case
  proof (cases "fn (operand_elem (st ! ra) (sizes (st ! ro)) i)
                   (operand_elem (st ! rb) (sizes (st ! ro)) i)")
    case (Inl e)
    then show ?thesis by (simp add: put_out_def)
  next
    case (Inr v)
    let ?st = "st[ro := (st ! ro)\<lparr>data := (data (st ! ro))[i := v]\<rparr>]"
    have "binary_loop_store fn ra rb ro is ?st =
            put_out ro ?st (binary_loop fn (?st ! ra) (?st ! rb) is (?st ! ro))"
      using Cons.prems by (intro Cons.IH) simp_all
    then show ?thesis
      using Inr Cons.prems by (simp add: put_out_update)
  qed
qed

lemma unary_loop_store_separate:
  "ra \<noteq> ro \<Longrightarrow> ro < length st \<Longrightarrow>
   unary_loop_store fn ra ro is st =
     st[ro := (st ! ro)\<lparr>data := unary_loop fn (data (st ! ra)) is (data (st ! ro))\<rparr>]"
proof (induction "is" arbitrary: st)
  case Nil
  then show ?case by simp
next
  case (Cons i "is")
  let ?st = "st[ro := (st ! ro)\<lparr>data := (data (st ! ro))[i := fn (data (st ! ra) ! i)]\<rparr>]"
  have "unary_loop_store fn ra ro is ?st =
     ?st[ro := (?st ! ro)\<lparr>data := unary_loop fn (data (?st ! ra)) is (data (?st ! ro))\<rparr>]"
    using Cons.prems by (intro Cons.IH) simp_all
  then show ?case
    using Cons.prems by simp
qed

lemma fmod_Tensor_out_store_separate:
  assumes "ra \<noteq> ro" and "rb \<noteq> ro" and "ro < length st"
  shows "fmod_Tensor_out_store P ra rb ro st =
           put_out ro st (fmod_Tensor_out P (st ! ra) (st ! rb) (st ! ro))"
proof (cases "resize_to_broadcast_target_size P (st ! ra) (st ! rb) (st ! ro)")
  case (Inl e)
  then show ?thesis
    by (simp add: fmod_Tensor_out_store_def fmod_Tensor_out_def put_out_def)
next
  case (Inr out1)
  have loop: "binary_loop_store fn ra rb ro is (st[ro := out1]) =
          put_out ro st (binary_loop fn (st ! ra) (st ! rb) is out1)" for fn "is"
    using binary_loop_store_separate [of ra ro rb "st[ro := out1]" fn "is"] assms
    by (simp add: put_out_update)
  show ?thesis
    using Inr assms
    by (simp add: fmod_Tensor_out_store_def fmod_Tensor_out_def Let_def loop
        apply_binary_elementwise_fn_def put_out_def)
qed

lemma fmod_Scalar_out_store_separate:
  assumes "ra \<noteq> ro" and "ro < length st"
  shows "fmod_Scalar_out_store P ra s ro st =
           put_out ro st (fmod_Scalar_out P (st ! ra) s (st ! ro))"
proof (cases "resize_tensor P (st ! ro) (sizes (st ! ra))")
  case None
  then show ?thesis
    by (simp add: fmod_Scalar_out_store_def fmod_Scalar_out_def put_out_def)
next
  case (Some out1)
  have loop: "unary_loop_store fn ra ro is (st[ro := out1]) =
          st[ro := out1\<lparr>data := unary_loop fn (data (st ! ra)) is (data out1)\<rparr>]" for fn "is"
    using unary_loop_store_separate [of ra ro "st[ro := out1]" fn "is"] assms
    by simp
  show ?thesis
    using Some assms
    by (simp add: fmod_Scalar_out_store_def fmod_Scalar_out_def Let_def loop
        apply_unary_map_fn_def put_out_def)
qed

lemma final_store_put_out:
  "r \<noteq> ro \<Longrightarrow> final_store (put_out ro st res) ! r = st ! r"
  by (simp add: final_store_def put_out_def split: sum.splits)

lemma binary_loop_store_error:
  "binary_loop_store fn ra rb ro is st = Inl (e, st') \<Longrightarrow> \<exists>x y. fn x y = Inl e"
  by (induction "is" arbitrary: st) (auto split: sum.splits)

lemma binary_loop_store_frame:
  "r \<noteq> ro \<Longrightarrow> final_store (binary_loop_store fn ra rb ro is st) ! r = st ! r"
proof (induction "is" arbitrary: st)
  case Nil
  then show ?case by (simp add: final_store_def)
next
  case (Cons i "is")
  show ?case
  proof (cases "fn (operand_elem (st ! ra) (sizes (st ! ro)) i)
                   (operand_elem (st ! rb) (sizes (st ! ro)) i)")
    case (Inl e)
    then show ?thesis by (simp add: final_store_def)
  next
    case (Inr v)
    then show ?thesis
      using Cons.IH [OF Cons.prems] Cons.prems by simp
  qed
qed

lemma unary_loop_store_frame:
  "r \<noteq> ro \<Longrightarrow> unary_loop_store fn ra ro is st ! r = st ! r"
  by (induction "is" arbitrary: st) simp_all

lemma fmod_Tensor_out_store_frame:
  assumes "r \<noteq> ro"
  shows "final_store (fmod_Tensor_out_store P ra rb ro st) ! r = st ! r"
proof (cases "resize_to_broadcast_target_size P (st ! ra) (st ! rb) (st ! ro)")
  case (Inl e)
  then show ?thesis
    by (simp add: fmod_Tensor_out_store_def final_store_def)
next
  case (Inr out1)
  have "final_store (binary_loop_store fn ra rb ro is (st[ro := out1])) ! r = st ! r" for fn "is"
    using binary_loop_store_frame [OF assms, of fn ra rb "is" "st[ro := out1]"] assms by simp
  then show ?thesis
    using Inr assms
    by (simp add: fmod_Tensor_out_store_def Let_def) (simp add: final_store_def)
qed

lemma fmod_Scalar_out_store_frame:
  assumes "r \<noteq> ro"
  shows "final_store (fmod_Scalar_out_store P ra s ro st) ! r = st ! r"
proof (cases "resize_tensor P (st ! ro) (sizes (st ! ra))")
  case None
  then show ?thesis
    by (simp add: fmod_Scalar_out_store_def final_store_def)
next
  case (Some out1)
  then show ?thesis
    using assms
    by (simp add: fmod_Scalar_out_store_def Let_def final_store_def unary_loop_store_frame)
qed

lemma fmod_Tensor_out_store_cast:
  assumes "fmod_Tensor_out_store P ra rb ro st = Inl (CastNotAllowed, st')"
  shows "\<exists>out1. resize_to_broadcast_target_size P (st ! ra) (st ! rb) (st ! ro) = Inr out1 \<and>
                st' = st[ro := out1]"
proof (cases "resize_to_broadcast_target_size P (st ! ra) (st ! rb) (st ! ro)")
  case (Inl e)
  then show ?thesis
    using assms resize_to_broadcast_error [OF Inl] by (auto simp: fmod_Tensor_out_store_def)
next
  case (Inr out1)
  have "st' = st[ro := out1]"
    using assms Inr
    by (auto simp: fmod_Tensor_out_store_def Let_def
        split: if_splits dest!: binary_loop_store_error fmod_elementwise_fn_error)
  with Inr show ?thesis by simp
qed

lemma fmod_Scalar_out_store_cast:
  assumes "fmod_Scalar_out_store P ra s ro st = Inl (CastNotAllowed, st')"
  shows "\<exists>out1. resize_tensor P (st ! ro) (sizes (st ! ra)) = Some out1 \<and> st' = st[ro := out1]"
  using assms
  by (auto simp: fmod_Scalar_out_store_def Let_def split: option.splits if_splits)

text \<open>
  C10, as the claim states it, fails in its last part: when \<open>out\<close> is the same tensor as
  \<open>a\<close>, the element writes go to \<open>a\<close>. With \<open>a = [5, 7, -3]\<close> passed as \<open>out\<close> too,
  the call returns and \<open>a\<close> holds \<open>[1, 1, -1]\<close>, in both entry points.
\<close>

theorem aliased_input_is_mutated_counterexample:
  "fmod_Tensor_out_store ideal_platform 0 1 0
     [\<lparr>sizes = [3], scalar_type = IntT, data = [IntV 5, IntV 7, IntV (- 3)]\<rparr>,
      \<lparr>sizes = [3], scalar_type = IntT, data = [IntV 2, IntV 2, IntV 2]\<rparr>]
   = Inr [\<lparr>sizes = [3], scalar_type = IntT, data = [IntV 1, IntV 1, IntV (- 1)]\<rparr>,
          \<lparr>sizes = [3], scalar_type = IntT, data = [IntV 2, IntV 2, IntV 2]\<rparr>] \<and>
   fmod_Scalar_out_store ideal_platform 0 (IntS 2) 0
     [\<lparr>sizes = [3], scalar_type = IntT, data = [IntV 5, IntV 7, IntV (- 3)]\<rparr>]
   = Inr [\<lparr>sizes = [3], scalar_type = IntT, data = [IntV 1, IntV 1, IntV (- 1)]\<rparr>]"
proof
  let ?P = "ideal_platform"
  let ?a = "\<lparr>sizes = [3], scalar_type = IntT, data = [IntV 5, IntV 7, IntV (- 3) :: ideal_float elem]\<rparr>"
  let ?b = "\<lparr>sizes = [3], scalar_type = IntT, data = [IntV 2, IntV 2, IntV 2 :: ideal_float elem]\<rparr>"
  have r: "resize_to_broadcast_target_size ?P ?a ?b ?a = Inr ?a"
    by (simp add: resize_to_broadcast_target_size_def broadcastShape_def resize_tensor_def)
  have c: "canCast ?P IntT IntT" "canCast ?P Long IntT"
    by (simp_all add: ideal_platform_def cast_policy_def isFloatingType_def)
  have t: "promoteTypes IntT IntT = IntT" "REAL_TYPES IntT" "REAL_TYPES_AND_Bool IntT"
    "REAL_TYPES Long"
    by (simp_all add: promoteTypes_def REAL_TYPES_def REAL_TYPES_AND_Bool_def)
  have idx: "[0..<numel [3]] = [0, Suc 0, Suc (Suc 0)]"
    by (simp add: numel_def upt_conv_Cons)
  have fn: "fmod_elementwise_fn ?P IntT IntT IntT IntT (IntV 5) (IntV 2) = Inr (IntV 1)"
    "fmod_elementwise_fn ?P IntT IntT IntT IntT (IntV 7) (IntV 2) = Inr (IntV 1)"
    "fmod_elementwise_fn ?P IntT IntT IntT IntT (IntV (- 3)) (IntV 2) = Inr (IntV (- 1))"
    by (simp_all add: fmod_elementwise_fn_def elem_is_zero_def fmod_value_IntT)
  show "fmod_Tensor_out_store ?P 0 1 0 [?a, ?b] =
          Inr [\<lparr>sizes = [3], scalar_type = IntT, data = [IntV 1, IntV 1, IntV (- 1)]\<rparr>, ?b]"
    by (simp add: fmod_Tensor_out_store_def Let_def r c t idx operand_elem_def
        operand_index_def fn)
  have ct: "promote_type_with_scalar IntT (IntS 2 :: ideal_float Scalar) = Long"
    by (simp add: promote_type_with_scalar_def get_scalar_dtype_def promoteTypes_def
        isFloatingType_def)
  have rs: "resize_tensor ?P ?a [3] = Some ?a"
    by (simp add: resize_tensor_def)
  show "fmod_Scalar_out_store ?P 0 (IntS 2) 0 [?a] =
          Inr [\<lparr>sizes = [3], scalar_type = IntT, data = [IntV 1, IntV 1, IntV (- 1)]\<rparr>]"
    by (simp add: fmod_Scalar_out_store_def Let_def rs ct c t idx SCALAR_OBJ_TYPES_def
        extract_scalar_def get_scalar_dtype_def isIntegralType_def elem_is_zero_def
        fmod_value_Long)
qed


text \<open>
  C10, amended: in both entry points the resize precedes the cast check, so whenever a
  call fails with \<open>CastNotAllowed\<close> the output tensor at the failure is the result of
  the resize, with the target shape (the third and fourth conjunct are calls in which it
  differs from the \<open>out\<close> that was passed in); this holds on tensor values and in the
  store, whatever handles coincide. On every path only the tensor at the handle of
  \<open>out\<close> changes: an input that is a tensor distinct from \<open>out\<close> is never mutated.
  When \<open>out\<close> is distinct from both inputs, the call in the store is the call on tensor
  values.
\<close>

theorem cast_failure_leaves_out_resized:
  "(\<forall>out'. fmod_Tensor_out P a b out = Inl (CastNotAllowed, out') \<longrightarrow>
      resize_to_broadcast_target_size P a b out = Inr out' \<and>
      broadcastShape (sizes a) (sizes b) = Some (sizes out')) \<and>
   (\<forall>out'. fmod_Scalar_out P a s out = Inl (CastNotAllowed, out') \<longrightarrow>
      resize_tensor P out (sizes a) = Some out' \<and> sizes out' = sizes a) \<and>
   fmod_Tensor_out ideal_platform
     \<lparr>sizes = [2], scalar_type = Float, data = [FloatV (Fin 1), FloatV (Fin 2)]\<rparr>
     \<lparr>sizes = [2], scalar_type = Float, data = [FloatV (Fin 2), FloatV (Fin 3)]\<rparr>
     \<lparr>sizes = [3], scalar_type = IntT, data = [IntV 0, IntV 0, IntV 0]\<rparr>
   = Inl (CastNotAllowed, \<lparr>sizes = [2], scalar_type = IntT, data = [IntV 0, IntV 0]\<rparr>) \<and>
   fmod_Scalar_out ideal_platform
     \<lparr>sizes = [2], scalar_type = Float, data = [FloatV (Fin 1), FloatV (Fin 2)]\<rparr>
     (IntS 2)
     \<lparr>sizes = [3], scalar_type = IntT, data = [IntV 0, IntV 0, IntV 0]\<rparr>
   = Inl (CastNotAllowed, \<lparr>sizes = [2], scalar_type = IntT, data = [IntV 0, IntV 0]\<rparr>) \<and>
   (\<forall>st'. fmod_Tensor_out_store P ra rb ro st = Inl (CastNotAllowed, st') \<longrightarrow>
      (\<exists>out1. resize_to_broadcast_target_size P (st ! ra) (st ! rb) (st ! ro) = Inr out1 \<and>
              st' = st[ro := out1])) \<and>
   (\<forall>st'. fmod_Scalar_out_store P ra s ro st = Inl (CastNotAllowed, st') \<longrightarrow>
      (\<exists>out1. resize_tensor P (st ! ro) (sizes (st ! ra)) = Some out1 \<and> st' = st[ro := out1])) \<and>
   (\<forall>r. r \<noteq> ro \<longrightarrow>
      final_store (fmod_Tensor_out_store P ra rb ro st) ! r = st ! r \<and>
      final_store (fmod_Scalar_out_store P ra s ro st) ! r = st ! r) \<and>
   (ra \<noteq> ro \<and> rb \<noteq> ro \<and> ro < length st \<longrightarrow>
      fmod_Tensor_out_store P ra rb ro st =
        put_out ro st (fmod_Tensor_out P (st ! ra) (st ! rb) (st ! ro))) \<and>
   (ra \<noteq> ro \<and> ro < length st \<longrightarrow>
      fmod_Scalar_out_store P ra s ro st =
        put_out ro st (fmod_Scalar_out P (st ! ra) s (st ! ro)))"
proof (intro conjI allI impI, goal_cases)
  case (1 out')
  show ?case
  proof (cases "resize_to_broadcast_target_size P a b out")
    case (Inl e)
    then show ?thesis
      using 1 resize_to_broadcast_error [OF Inl] by (auto simp: fmod_Tensor_out_def)
  next
    case (Inr out1)
    have "out' = out1"
      using 1 Inr
      by (auto simp: fmod_Tensor_out_def Let_def apply_binary_elementwise_fn_def
          split: if_splits dest!: binary_loop_error fmod_elementwise_fn_error)
    with Inr show ?thesis by simp
  qed
next
  case (2 out')
  then have "resize_to_broadcast_target_size P a b out = Inr out'"
  proof (cases "resize_to_broadcast_target_size P a b out")
    case (Inl e)
    then show ?thesis
      using 2 resize_to_broadcast_error [OF Inl] by (auto simp: fmod_Tensor_out_def)
  next
    case (Inr out1)
    have "out' = out1"
      using 2 Inr
      by (auto simp: fmod_Tensor_out_def Let_def apply_binary_elementwise_fn_def
          split: if_splits dest!: binary_loop_error fmod_elementwise_fn_error)
    with Inr show ?thesis by simp
  qed
  then show ?case
    by (simp add: resize_to_broadcast_Inr)
next
  case (3 out')
  then show ?case
    by (auto simp: fmod_Scalar_out_def Let_def split: option.splits if_splits)
next
  case (4 out')
  then have "resize_tensor P out (sizes a) = Some out'"
    by (auto simp: fmod_Scalar_out_def Let_def split: option.splits if_splits)
  then show ?case
    by (simp add: resize_tensor_Some)
next
  case 5
  show ?case
    by (simp add: eval_defs numeral_2_eq_2)
next
  case 6
  show ?case
    by (simp add: eval_defs numeral_2_eq_2)
next
  case (7 st')
  then show ?case by (rule fmod_Tensor_out_store_cast)
next
  case (8 st')
  then show ?case by (rule fmod_Scalar_out_store_cast)
next
  case (9 r)
  then show ?case by (rule fmod_Tensor_out_store_frame)
next
  case (10 r)
  then show ?case by (rule fmod_Scalar_out_store_frame)
next
  case 11
  then show ?case by (elim conjE) (rule fmod_Tensor_out_store_separate)
next
  case 12
  then show ?case by (elim conjE) (rule fmod_Scalar_out_store_separate)
qed

theorem cast_failure_leaves_out_resized_witness:
  "fmod_Tensor_out ideal_platform
     \<lparr>sizes = [2], scalar_type = Float, data = [FloatV (Fin 1), FloatV (Fin 2)]\<rparr>
     \<lparr>sizes = [2], scalar_type = Float, data = [FloatV (Fin 2), FloatV (Fin 3)]\<rparr>
     \<lparr>sizes = [3], scalar_type = IntT, data = [IntV 0, IntV 0, IntV 0]\<rparr>
   = Inl (CastNotAllowed, \<lparr>sizes = [2], scalar_type = IntT, data = [IntV 0, IntV 0]\<rparr>) \<and>
   resize_to_broadcast_target_size ideal_platform
     \<lparr>sizes = [2], scalar_type = Float, data = [FloatV (Fin 1), FloatV (Fin 2)]\<rparr>
     \<lparr>sizes = [2], scalar_type = Float, data = [FloatV (Fin 2), FloatV (Fin 3)]\<rparr>
     \<lparr>sizes = [3], scalar_type = IntT, data = [IntV 0, IntV 0, IntV 0]\<rparr>
   = Inr \<lparr>sizes = [2], scalar_type = IntT, data = [IntV 0, IntV 0]\<rparr> \<and>
   fmod_Scalar_out ideal_platform
     \<lparr>sizes = [2], scalar_type = Float, data = [FloatV (Fin 1), FloatV (Fin 2)]\<rparr>
     (IntS 2)
     \<lparr>sizes = [3], scalar_type = IntT, data = [IntV 0, IntV 0, IntV 0]\<rparr>
   = Inl (CastNotAllowed, \<lparr>sizes = [2], scalar_type = IntT, data = [IntV 0, IntV 0]\<rparr>) \<and>
   resize_tensor ideal_platform
     \<lparr>sizes = [3], scalar_type = IntT, data = [IntV 0, IntV 0, IntV 0]\<rparr> [2]
   = Some \<lparr>sizes = [2], scalar_type = IntT, data = [IntV 0, IntV 0]\<rparr> \<and>
   \<lparr>sizes = [2], scalar_type = IntT, data = [IntV 0, IntV 0 :: ideal_float elem]\<rparr> \<noteq>
   \<lparr>sizes = [3], scalar_type = IntT, data = [IntV 0, IntV 0, IntV 0]\<rparr> \<and>
   fmod_Tensor_out_store ideal_platform 0 1 2
     [\<lparr>sizes = [2], scalar_type = Float, data = [FloatV (Fin 1), FloatV (Fin 2)]\<rparr>,
      \<lparr>sizes = [2], scalar_type = Float, data = [FloatV (Fin 2), FloatV (Fin 3)]\<rparr>,
      \<lparr>sizes = [3], scalar_type = IntT, data = [IntV 0, IntV 0, IntV 0]\<rparr>]
   = Inl (CastNotAllowed,
     [\<lparr>sizes = [2], scalar_type = Float, data = [FloatV (Fin 1), FloatV (Fin 2)]\<rparr>,
      \<lparr>sizes = [2], scalar_type = Float, data = [FloatV (Fin 2), FloatV (Fin 3)]\<rparr>,
      \<lparr>sizes = [2], scalar_type = IntT, data = [IntV 0, IntV 0]\<rparr>]) \<and>
   fmod_Scalar_out_store ideal_platform 0 (IntS 2) 2
     [\<lparr>sizes = [2], scalar_type = Float, data = [FloatV (Fin 1), FloatV (Fin 2)]\<rparr>,
      \<lparr>sizes = [2], scalar_type = Float, data = [FloatV (Fin 2), FloatV (Fin 3)]\<rparr>,
      \<lparr>sizes = [3], scalar_type = IntT, data = [IntV 0, IntV 0, IntV 0]\<rparr>]
   = Inl (CastNotAllowed,
     [\<lparr>sizes = [2], scalar_type = Float, data = [FloatV (Fin 1), FloatV (Fin 2)]\<rparr>,
      \<lparr>sizes = [2], scalar_type = Float, data = [FloatV (Fin 2), FloatV (Fin 3)]\<rparr>,
      \<lparr>sizes = [2], scalar_type = IntT, data = [IntV 0, IntV 0]\<rparr>]) \<and>
   final_store (fmod_Tensor_out_store ideal_platform 0 1 2
     [\<lparr>sizes = [2], scalar_type = Float, data = [FloatV (Fin 1), FloatV (Fin 2)]\<rparr>,
      \<lparr>sizes = [2], scalar_type = Float, data = [FloatV (Fin 2), FloatV (Fin 3)]\<rparr>,
      \<lparr>sizes = [3], scalar_type = IntT, data = [IntV 0, IntV 0, IntV 0]\<rparr>]) ! 0
   = \<lparr>sizes = [2], scalar_type = Float, data = [FloatV (Fin 1), FloatV (Fin 2)]\<rparr>"
proof -
  let ?P = "ideal_platform"
  let ?a = "\<lparr>sizes = [2], scalar_type = Float, data = [FloatV (Fin 1), FloatV (Fin 2)]\<rparr>"
  let ?b = "\<lparr>sizes = [2], scalar_type = Float, data = [FloatV (Fin 2), FloatV (Fin 3)]\<rparr>"
  let ?o = "\<lparr>sizes = [3], scalar_type = IntT, data = [IntV 0, IntV 0, IntV 0 :: ideal_float elem]\<rparr>"
  let ?o' = "\<lparr>sizes = [2], scalar_type = IntT, data = [IntV 0, IntV 0 :: ideal_float elem]\<rparr>"
  let ?s = "IntS 2 :: ideal_float Scalar"
  note T = cast_failure_leaves_out_resized [where P = ?P and a = ?a and b = ?b and out = ?o and s = ?s
      and ra = 0 and rb = "Suc 0" and ro = 2 and st = "[?a, ?b, ?o]"]
  note c2 = T [THEN conjunct2]
  note c3 = c2 [THEN conjunct2]
  note c4 = c3 [THEN conjunct2]
  note c5 = c4 [THEN conjunct2]
  note c6 = c5 [THEN conjunct2]
  note c7 = c6 [THEN conjunct2]
  note c8 = c7 [THEN conjunct2]
  have E1: "fmod_Tensor_out ?P ?a ?b ?o = Inl (CastNotAllowed, ?o')"
    by (rule c3 [THEN conjunct1])
  have E2: "fmod_Scalar_out ?P ?a ?s ?o = Inl (CastNotAllowed, ?o')"
    by (rule c4 [THEN conjunct1])
  have R1: "resize_to_broadcast_target_size ?P ?a ?b ?o = Inr ?o'"
    using T [THEN conjunct1, THEN spec, THEN mp, OF E1] by (rule conjunct1)
  have R2: "resize_tensor ?P ?o (sizes ?a) = Some ?o'"
    using c2 [THEN conjunct1, THEN spec, THEN mp, OF E2] by (rule conjunct1)
  have N: "?o' \<noteq> ?o"
    by simp
  have S1: "fmod_Tensor_out_store ?P 0 (Suc 0) 2 [?a, ?b, ?o] =
              put_out 2 [?a, ?b, ?o] (fmod_Tensor_out ?P ([?a, ?b, ?o] ! 0) ([?a, ?b, ?o] ! Suc 0) ([?a, ?b, ?o] ! 2))"
    by (rule c8 [THEN conjunct1, THEN mp]) simp
  have S2: "fmod_Scalar_out_store ?P 0 ?s 2 [?a, ?b, ?o] =
              put_out 2 [?a, ?b, ?o] (fmod_Scalar_out ?P ([?a, ?b, ?o] ! 0) ?s ([?a, ?b, ?o] ! 2))"
    by (rule c8 [THEN conjunct2, THEN mp]) simp
  have F: "final_store (fmod_Tensor_out_store ?P 0 (Suc 0) 2 [?a, ?b, ?o]) ! 0 = [?a, ?b, ?o] ! 0"
    using c7 [THEN conjunct1, THEN spec, of 0] by simp
  have S1': "fmod_Tensor_out_store ?P 0 1 2 [?a, ?b, ?o] = Inl (CastNotAllowed, [?a, ?b, ?o'])"
    using S1 E1 by (simp add: put_out_def numeral_2_eq_2)
  have S2': "fmod_Scalar_out_store ?P 0 ?s 2 [?a, ?b, ?o] = Inl (CastNotAllowed, [?a, ?b, ?o'])"
    using S2 E2 by (simp add: put_out_def numeral_2_eq_2)
  have F': "final_store (fmod_Tensor_out_store ?P 0 1 2 [?a, ?b, ?o]) ! 0 = ?a"
    using F by simp
  show ?thesis
    using R2 by (intro conjI E1 R1 E2 N S1' S2' F') simp
qed

subsection \<open>Type promotion is total, commutative and idempotent\<close>

text \<open>
  C6: \<open>promoteTypes\<close> returns a type tag for every pair of tags, it is commutative, and
  it maps a pair of equal tags to that tag.
\<close>

theorem promoteTypes_total_commutative_idempotent:
  "(\<exists>t. promoteTypes x y = t) \<and> promoteTypes x y = promoteTypes y x \<and> promoteTypes x x = x"
  by (cases x; cases y; simp add: promoteTypes_def isFloatingType_def)

end
